theory Spec2Isabelle
  imports Complex_Main
begin

section \<open>SQPnP: data model\<close>

text \<open>
  The solver of \<^verbatim>\<open>sqpnp.cpp\<close> works on fixed-size Eigen matrices of doubles. A
  double is modelled as a \<^typ>\<open>real\<close>: the development is about control flow,
  indexing and the algebraic shape of the computation, with exact arithmetic. A
  fixed-size vector or matrix is a function from its indices; only the indices
  below its size are ever read.
\<close>

type_synonym Matrix91 = "nat \<Rightarrow> real"
type_synonym Matrix99 = "nat \<Rightarrow> nat \<Rightarrow> real"
type_synonym Matrix39 = "nat \<Rightarrow> nat \<Rightarrow> real"
type_synonym Matrix33 = "nat \<Rightarrow> nat \<Rightarrow> real"
type_synonym Vector2d = "real \<times> real"
type_synonym Vector3d = "real \<times> real \<times> real"
type_synonym Quaterniond = "real \<times> real \<times> real \<times> real"

text \<open>\<^verbatim>\<open>std::numeric_limits<double>::max()\<close>, the largest finite double.\<close>

definition DBL_MAX :: real where
  "DBL_MAX = (2 ^ 53 - 1) * 2 ^ 971"

text \<open>
  Failures of the source that are not return values: \<^verbatim>\<open>weights_.at(i)\<close> throws
  when \<open>i\<close> is not below the size, and \<^verbatim>\<open>s_[k]\<close> on the nine singular values is
  an out-of-range read when \<open>k\<close> is outside \<open>0..8\<close>.
\<close>

datatype error = OutOfRangeAt nat | IndexOutOfRange int

text \<open>
  \<^verbatim>\<open>SQPSolution\<close>. The fields \<^verbatim>\<open>r\<close> and \<^verbatim>\<open>t\<close> are named \<open>sol_r\<close> and \<open>sol_t\<close>.
\<close>

record SQPSolution =
  sol_r :: Matrix91
  r_hat :: Matrix91
  sol_t :: "nat \<Rightarrow> real"
  num_iterations :: int

subsection \<open>Vector and matrix operations of Eigen used by the solver\<close>

definition vneg :: "Matrix91 \<Rightarrow> Matrix91" where
  "vneg v = (\<lambda>i. - v i)"

definition vadd :: "Matrix91 \<Rightarrow> Matrix91 \<Rightarrow> Matrix91" where
  "vadd a b = (\<lambda>i. a i + b i)"

definition vscale :: "real \<Rightarrow> Matrix91 \<Rightarrow> Matrix91" where
  "vscale c v = (\<lambda>i. c * v i)"

definition squaredNorm :: "Matrix91 \<Rightarrow> real" where
  "squaredNorm v = sum_list (map (\<lambda>i. v i * v i) [0..<9])"

text \<open>\<^verbatim>\<open>U_.block<9, 1>(0, i)\<close>: column \<open>i\<close> of a 9x9 matrix.\<close>

definition column :: "Matrix99 \<Rightarrow> nat \<Rightarrow> Matrix91" where
  "column U i = (\<lambda>k. U k i)"

text \<open>\<^verbatim>\<open>P_ * r_hat\<close>: a 3x9 matrix applied to a 9-vector.\<close>

definition mat39_vec :: "Matrix39 \<Rightarrow> Matrix91 \<Rightarrow> (nat \<Rightarrow> real)" where
  "mat39_vec P v = (\<lambda>i. sum_list (map (\<lambda>k. P i k * v k) [0..<9]))"

text \<open>\<^verbatim>\<open>-Qinv * QA\<close>: the negated product of a 3x3 and a 3x9 matrix.\<close>

definition neg_mat33_mat39 :: "Matrix33 \<Rightarrow> Matrix39 \<Rightarrow> Matrix39" where
  "neg_mat33_mat39 A B = (\<lambda>i j. sum_list (map (\<lambda>k. (- A i k) * B k j) [0..<3]))"

text \<open>\<^verbatim>\<open>Omega_ += QA.transpose() * P_\<close>.\<close>

definition add_QAt_P :: "Matrix99 \<Rightarrow> Matrix39 \<Rightarrow> Matrix39 \<Rightarrow> Matrix99" where
  "add_QAt_P Om A P = (\<lambda>i j. Om i j + sum_list (map (\<lambda>k. A k i * P k j) [0..<3]))"

text \<open>\<^verbatim>\<open>M(i, j) += v\<close> and \<^verbatim>\<open>M(i, j) = M(k, l)\<close> on a matrix.\<close>

definition add_at :: "(nat \<Rightarrow> nat \<Rightarrow> real) \<Rightarrow> nat \<times> nat \<times> real \<Rightarrow> (nat \<Rightarrow> nat \<Rightarrow> real)" where
  "add_at M e = (case e of (i, j, v) \<Rightarrow> M(i := (M i)(j := M i j + v)))"

definition add_entries :: "(nat \<Rightarrow> nat \<Rightarrow> real) \<Rightarrow> (nat \<times> nat \<times> real) list \<Rightarrow> (nat \<Rightarrow> nat \<Rightarrow> real)" where
  "add_entries M es = foldl add_at M es"

definition copy_entry :: "Matrix99 \<Rightarrow> (nat \<times> nat) \<times> (nat \<times> nat) \<Rightarrow> Matrix99" where
  "copy_entry M e = (case e of ((i, j), (k, l)) \<Rightarrow> M(i := (M i)(j := M k l)))"

text \<open>
  Modelled from the spec: \<^verbatim>\<open>Determinant9x1\<close> is declared in \<^verbatim>\<open>sqpnp_helper.h\<close>,
  which is not among the sources. The spec describes it as the determinant of
  the 9-vector reshaped as a 3x3 matrix, the flattening being row-major.
\<close>

definition Determinant9x1 :: "Matrix91 \<Rightarrow> real" where
  "Determinant9x1 v =
     v 0 * v 4 * v 8 + v 1 * v 5 * v 6 + v 2 * v 3 * v 7
     - v 6 * v 4 * v 2 - v 7 * v 5 * v 0 - v 8 * v 3 * v 1"

section \<open>Accumulation of the quadratic form (lines 76-140)\<close>

text \<open>
  The locals that the accumulation loop updates: \<^verbatim>\<open>Omega_\<close>, \<^verbatim>\<open>QA\<close> and the running
  sums.
\<close>

record accum =
  Omega :: Matrix99
  QA :: Matrix39
  sum_wx :: real
  sum_wy :: real
  sum_wx2_plus_wy2 :: real
  sum_w :: real
  sum_X :: real
  sum_Y :: real
  sum_Z :: real

text \<open>The initial values of lines 76-87: zero matrices and zero sums.\<close>

definition accum0 :: accum where
  "accum0 = \<lparr> Omega = (\<lambda>i j. 0), QA = (\<lambda>i j. 0), sum_wx = 0, sum_wy = 0,
      sum_wx2_plus_wy2 = 0, sum_w = 0, sum_X = 0, sum_Y = 0, sum_Z = 0 \<rparr>"

text \<open>
  Lines 93-139 as a function of the weight \<open>w\<close>, the image point \<open>m\<close> and the
  world point \<open>M\<close> that the statements read.
\<close>

definition contribution :: "real \<Rightarrow> Vector2d \<Rightarrow> Vector3d \<Rightarrow> accum \<Rightarrow> accum" where
  "contribution w m M a =
     (case m of (mx, my) \<Rightarrow> case M of (X, Y, Z) \<Rightarrow>
      let wx = mx * w; wy = my * w; wsq_norm_m = w * (mx * mx + my * my);
          X2 = X * X; XY = X * Y; XZ = X * Z; Y2 = Y * Y; YZ = Y * Z; Z2 = Z * Z;
          wX = w * X; wY = w * Y; wZ = w * Z
      in a \<lparr> sum_wx := sum_wx a + wx,
             sum_wy := sum_wy a + wy,
             sum_wx2_plus_wy2 := sum_wx2_plus_wy2 a + wsq_norm_m,
             sum_w := sum_w a + w,
             sum_X := sum_X a + X,
             sum_Y := sum_Y a + Y,
             sum_Z := sum_Z a + Z,
             Omega := add_entries (Omega a)
               [(0, 0, w * X2), (0, 1, w * XY), (0, 2, w * XZ),
                (1, 1, w * Y2), (1, 2, w * YZ), (2, 2, w * Z2),
                (0, 6, - wx * X2), (0, 7, - wx * XY), (0, 8, - wx * XZ),
                (1, 7, - wx * Y2), (1, 8, - wx * YZ), (2, 8, - wx * Z2),
                (3, 6, - wy * X2), (3, 7, - wy * XY), (3, 8, - wy * XZ),
                (4, 7, - wy * Y2), (4, 8, - wy * YZ), (5, 8, - wy * Z2),
                (6, 6, wsq_norm_m * X2), (6, 7, wsq_norm_m * XY), (6, 8, wsq_norm_m * XZ),
                (7, 7, wsq_norm_m * Y2), (7, 8, wsq_norm_m * YZ), (8, 8, wsq_norm_m * Z2)],
             QA := add_entries (QA a)
               [(0, 0, wX), (0, 1, wY), (0, 2, wZ),
                (0, 6, - wx * X), (0, 7, - wx * Y), (0, 8, - wx * Z),
                (1, 3, wX), (1, 4, wY), (1, 5, wZ),
                (1, 6, - wy * X), (1, 7, - wy * Y), (1, 8, - wy * Z),
                (2, 0, - wx * X), (2, 1, - wx * Y), (2, 2, - wx * Z),
                (2, 3, - wy * X), (2, 4, - wy * Y), (2, 5, - wy * Z),
                (2, 6, wsq_norm_m * X), (2, 7, wsq_norm_m * Y), (2, 8, wsq_norm_m * Z)] \<rparr>)"

text \<open>
  One pass of the loop body at index \<open>i\<close>. The weight is \<^verbatim>\<open>weights_.at(i)\<close>; the
  image point and the world point are read through \<^verbatim>\<open>rbegin()\<close>, the last
  element of each sequence, whatever \<open>i\<close> is.
\<close>

definition accumulate_body ::
  "real list \<Rightarrow> Vector2d list \<Rightarrow> Vector3d list \<Rightarrow> nat \<Rightarrow> accum \<Rightarrow> error + accum" where
  "accumulate_body ws feature_positions world_point i a =
     (if i < length ws
      then Inr (contribution (ws ! i) (last feature_positions) (last world_point) a)
      else Inl (OutOfRangeAt i))"

text \<open>\<^verbatim>\<open>for (size_t i = 0; i < n; i++)\<close>, entered at \<open>i\<close>.\<close>

function accumulate_loop ::
  "real list \<Rightarrow> Vector2d list \<Rightarrow> Vector3d list \<Rightarrow> nat \<Rightarrow> nat \<Rightarrow> accum \<Rightarrow> error + accum" where
  "accumulate_loop ws feature_positions world_point n i a =
     (if i < n
      then (case accumulate_body ws feature_positions world_point i a of
              Inl e \<Rightarrow> Inl e
            | Inr a' \<Rightarrow> accumulate_loop ws feature_positions world_point n (Suc i) a')
      else Inr a)"
  by pat_completeness auto
termination
  by (relation "measure (\<lambda>(ws, fp, wp, n, i, a). n - i)") auto

declare accumulate_loop.simps [simp del]

text \<open>
  The accumulated form as the specification words it: the sum over all \<open>i\<close> of
  the term of correspondence \<open>i\<close>, world point \<open>i\<close> paired with image point \<open>i\<close>
  and scaled by weight \<open>i\<close>.
\<close>

definition spec_accumulate :: "real list \<Rightarrow> Vector2d list \<Rightarrow> Vector3d list \<Rightarrow> accum" where
  "spec_accumulate ws feature_positions world_point =
     foldl (\<lambda>a i. contribution (ws ! i) (feature_positions ! i) (world_point ! i) a)
       accum0 [0..<length world_point]"

section \<open>Solver state and the parts taken as parameters\<close>

datatype NearestRotationMethod = FOAM | SVD

text \<open>
  The variables that outlive a statement of \<^verbatim>\<open>SQPnP\<close> and are not its locals:
  \<^verbatim>\<open>weights_\<close>, the \<^verbatim>\<open>num_null_vectors\<close> that line 75 assigns before the local of
  the same name is declared, \<^verbatim>\<open>P_\<close>, \<^verbatim>\<open>U_\<close>, \<^verbatim>\<open>s_\<close>, the function pointer
  \<^verbatim>\<open>NearestRotationMatrix\<close>, and the two output vectors behind the pointer
  arguments. A member \<^verbatim>\<open>x_\<close> of the source is the field \<open>x_m\<close>. Two more
  fields record calls, in order: \<open>handled\<close> holds the solutions passed to \<^verbatim>\<open>HandleSolution\<close> (the candidates the aggregator has
  seen), \<open>sqp_seeds\<close> the arguments of the calls of \<^verbatim>\<open>RunSQP\<close>.
\<close>

record sqpnp_state =
  weights_m :: "real list"
  num_null_vectors_m :: int
  P_m :: Matrix39
  U_m :: Matrix99
  s_m :: Matrix91
  NearestRotationMatrix :: "Matrix91 \<Rightarrow> Matrix91"
  handled :: "SQPSolution list"
  sqp_seeds :: "Matrix91 list"
  solution_rotation :: "Quaterniond list"
  solution_translation :: "Vector3d list"

text \<open>
  What \<^verbatim>\<open>sqpnp.cpp\<close> uses and the sources do not contain: the constants and the
  helpers of \<^verbatim>\<open>sqpnp.h\<close> and \<^verbatim>\<open>sqpnp_helper.h\<close>, the configuration
  \<^verbatim>\<open>parameters_\<close>, and Eigen's \<^verbatim>\<open>JacobiSVD\<close>. They are parameters of the model.
  A helper with an output argument returns it. \<^verbatim>\<open>SolveSQPSystem\<close> and
  \<^verbatim>\<open>HandleSolution\<close> may read the solver state; \<^verbatim>\<open>HandleSolution\<close> returns the new
  value of the \<^verbatim>\<open>min_sq_error\<close> it receives by reference. \<open>indeterminate\<close> is
  the content of a default-initialised \<^verbatim>\<open>SQPSolution\<close>.
\<close>

record env =
  DEFAULT_SQP_SQUARED_TOLERANCE :: real
  DEFAULT_RANK_TOLERANCE :: real
  DEFAULT_ORTHOGONALITY_SQUARED_ERROR_THRESHOLD :: real
  SQRT3 :: real
  sqp_det_threshold :: real
  nearest_rotation_method :: NearestRotationMethod
  NearestRotationMatrix_FOAM :: "Matrix91 \<Rightarrow> Matrix91"
  NearestRotationMatrix_SVD :: "Matrix91 \<Rightarrow> Matrix91"
  SolveSQPSystem :: "sqpnp_state \<Rightarrow> Matrix91 \<Rightarrow> Matrix91"
  OrthogonalityError :: "Matrix91 \<Rightarrow> real"
  InvertSymmetric3x3 :: "Matrix33 \<Rightarrow> Matrix33"
  JacobiSVD :: "Matrix99 \<Rightarrow> Matrix99 \<times> Matrix91"
  HandleSolution :: "sqpnp_state \<Rightarrow> SQPSolution \<Rightarrow> real \<Rightarrow> real"
  indeterminate :: SQPSolution

section \<open>RunSQP (lines 20-54)\<close>

text \<open>
  The loop of line 28, entered with the current \<open>r\<close>, \<open>delta_squared_norm\<close> and
  \<open>step\<close>. The second conjunct \<^verbatim>\<open>step++ < DEFAULT_SQP_SQUARED_TOLERANCE\<close> is
  evaluated only when the first holds; it compares the old \<open>step\<close>, converted to
  double, and increments \<open>step\<close> whether or not the comparison succeeds. The
  result is the final \<open>r\<close> and \<open>step\<close>. \<open>step\<close> is a C \<^verbatim>\<open>int\<close>; it stays below
  \<open>2 ^ 31\<close> as long as the constant does.
\<close>

function RunSQP_loop :: "env \<Rightarrow> sqpnp_state \<Rightarrow> Matrix91 \<Rightarrow> real \<Rightarrow> int \<Rightarrow> Matrix91 \<times> int" where
  "RunSQP_loop P st r delta_squared_norm step =
     (if delta_squared_norm > DEFAULT_SQP_SQUARED_TOLERANCE P
      then (if real_of_int step < DEFAULT_SQP_SQUARED_TOLERANCE P
            then (let delta = SolveSQPSystem P st r
                  in RunSQP_loop P st (vadd r delta) (squaredNorm delta) (step + 1))
            else (r, step + 1))
      else (r, step))"
  by pat_completeness auto
termination
  by (relation "measure (\<lambda>(P, st, r, d, step). nat (\<lceil>DEFAULT_SQP_SQUARED_TOLERANCE P\<rceil> - step))")
     (auto simp: less_ceiling_iff)

declare RunSQP_loop.simps [simp del]

definition RunSQP :: "env \<Rightarrow> sqpnp_state \<Rightarrow> Matrix91 \<Rightarrow> SQPSolution" where
  "RunSQP P st r0 =
     (case RunSQP_loop P st r0 DBL_MAX 0 of (r, step) \<Rightarrow>
      let solution = (indeterminate P) \<lparr> num_iterations := step \<rparr>;
          solution = solution \<lparr> sol_r := r \<rparr>;
          det_r = Determinant9x1 (sol_r solution);
          flipped = (if det_r < 0 then (solution \<lparr> sol_r := vneg r \<rparr>, - det_r)
                     else (solution, det_r));
          solution = fst flipped;
          det_r = snd flipped
      in if det_r > sqp_det_threshold P
         then solution \<lparr> r_hat := NearestRotationMatrix st (sol_r solution) \<rparr>
         else solution \<lparr> r_hat := sol_r solution \<rparr>)"

section \<open>The driver SQPnP (lines 64-263)\<close>

text \<open>\<^verbatim>\<open>weights_.resize(n, 1.0)\<close>: kept elements keep their value, new ones are 1.\<close>

definition resize :: "real list \<Rightarrow> nat \<Rightarrow> real \<Rightarrow> real list" where
  "resize ws n v = take n ws @ replicate (n - length ws) v"

text \<open>Lines 143-160: the copies \<^verbatim>\<open>Omega_(i, j) = Omega_(k, l)\<close>, in source order.\<close>

definition fill_copies :: "((nat \<times> nat) \<times> (nat \<times> nat)) list" where
  "fill_copies =
     [((1, 6), (0, 7)), ((2, 6), (0, 8)), ((2, 7), (1, 8)),
      ((4, 6), (3, 7)), ((5, 6), (3, 8)), ((5, 7), (4, 8)),
      ((7, 6), (6, 7)), ((8, 6), (6, 8)), ((8, 7), (7, 8)),
      ((3, 3), (0, 0)), ((3, 4), (0, 1)), ((3, 5), (0, 2)),
      ((4, 4), (1, 1)), ((4, 5), (1, 2)),
      ((5, 5), (2, 2)),
      ((1, 0), (0, 1)),
      ((2, 0), (0, 2)), ((2, 1), (1, 2)),
      ((3, 0), (0, 3)), ((3, 1), (1, 3)), ((3, 2), (2, 3)),
      ((4, 0), (0, 4)), ((4, 1), (1, 4)), ((4, 2), (2, 4)), ((4, 3), (3, 4)),
      ((5, 0), (0, 5)), ((5, 1), (1, 5)), ((5, 2), (2, 5)), ((5, 3), (3, 5)), ((5, 4), (4, 5)),
      ((6, 0), (0, 6)), ((6, 1), (1, 6)), ((6, 2), (2, 6)), ((6, 3), (3, 6)), ((6, 4), (4, 6)),
      ((6, 5), (5, 6)),
      ((7, 0), (0, 7)), ((7, 1), (1, 7)), ((7, 2), (2, 7)), ((7, 3), (3, 7)), ((7, 4), (4, 7)),
      ((7, 5), (5, 7)), ((7, 6), (6, 7)),
      ((8, 0), (0, 8)), ((8, 1), (1, 8)), ((8, 2), (2, 8)), ((8, 3), (3, 8)), ((8, 4), (4, 8)),
      ((8, 5), (5, 8)),
      ((8, 6), (6, 8)), ((8, 7), (7, 8))]"

definition fill_symmetric :: "Matrix99 \<Rightarrow> Matrix99" where
  "fill_symmetric M = foldl copy_entry M fill_copies"

text \<open>Lines 163-166: the matrix \<open>Q\<close> from the running sums.\<close>

definition Q_of :: "accum \<Rightarrow> Matrix33" where
  "Q_of a = (\<lambda>i j. [[sum_w a, 0, - sum_wx a],
                     [0, sum_w a, - sum_wy a],
                     [- sum_wx a, - sum_wy a, sum_wx2_plus_wy2 a]] ! i ! j)"

text \<open>
  A read \<^verbatim>\<open>s_[k]\<close> of the nine singular values with an \<^verbatim>\<open>int\<close> index: the value
  when \<open>0 \<le> k \<le> 8\<close>, an error otherwise.
\<close>

definition read_s :: "Matrix91 \<Rightarrow> int \<Rightarrow> error + real" where
  "read_s s k = (if 0 \<le> k \<and> k < 9 then Inr (s (nat k)) else Inl (IndexOutOfRange k))"

text \<open>
  Line 185: \<^verbatim>\<open>while (s_[7 - num_null_vectors] < DEFAULT_RANK_TOLERANCE)
  num_null_vectors++;\<close>, entered with the current count. The result is the count
  at which the loop stops.
\<close>

function null_space_scan :: "real \<Rightarrow> Matrix91 \<Rightarrow> int \<Rightarrow> error + int" where
  "null_space_scan tol s num_null_vectors =
     (case read_s s (7 - num_null_vectors) of
        Inl e \<Rightarrow> Inl e
      | Inr v \<Rightarrow> if v < tol then null_space_scan tol s (num_null_vectors + 1)
                 else Inr num_null_vectors)"
  by pat_completeness auto
termination
  by (relation "measure (\<lambda>(tol, s, k). nat (8 - k))")
     (auto simp: read_s_def split: if_splits)

declare null_space_scan.simps [simp del]

text \<open>
  A call \<^verbatim>\<open>HandleSolution(solution, min_sq_error)\<close> on the pair of the running
  minimum and the state, and a call of \<^verbatim>\<open>RunSQP\<close>; each is recorded.
\<close>

definition handle :: "env \<Rightarrow> SQPSolution \<Rightarrow> real \<times> sqpnp_state \<Rightarrow> real \<times> sqpnp_state" where
  "handle P solution ms =
     (case ms of (min_sq_error, st) \<Rightarrow>
        (HandleSolution P st solution min_sq_error, st \<lparr> handled := handled st @ [solution] \<rparr>))"

definition run_sqp :: "env \<Rightarrow> Matrix91 \<Rightarrow> sqpnp_state \<Rightarrow> SQPSolution \<times> sqpnp_state" where
  "run_sqp P r0 st = (RunSQP P st r0, st \<lparr> sqp_seeds := sqp_seeds st @ [r0] \<rparr>)"

text \<open>Lines 222-226: the branch taken when \<open>e\<close> passes the orthogonality test.\<close>

definition accept_directly :: "env \<Rightarrow> Matrix91 \<Rightarrow> real \<times> sqpnp_state \<Rightarrow> real \<times> sqpnp_state" where
  "accept_directly P e ms =
     (let solution0 = (indeterminate P) \<lparr> r_hat := vscale (Determinant9x1 e) e \<rparr>;
          solution0 = solution0 \<lparr> sol_t := mat39_vec (P_m (snd ms)) (r_hat solution0) \<rparr>;
          solution0 = solution0 \<lparr> num_iterations := 0 \<rparr>
      in handle P solution0 ms)"

text \<open>Lines 230-238: the branch taken otherwise.\<close>

definition refine_both_signs :: "env \<Rightarrow> Matrix91 \<Rightarrow> real \<times> sqpnp_state \<Rightarrow> real \<times> sqpnp_state" where
  "refine_both_signs P e ms =
     (let r0 = NearestRotationMatrix (snd ms) e;
          run0 = run_sqp P r0 (snd ms);
          solution0 = (fst run0) \<lparr> sol_t := mat39_vec (P_m (snd run0)) (r_hat (fst run0)) \<rparr>;
          ms = handle P solution0 (fst ms, snd run0);
          r1 = NearestRotationMatrix (snd ms) (vneg e);
          run1 = run_sqp P r1 (snd ms);
          solution1 = (fst run1) \<lparr> sol_t := mat39_vec (P_m (snd run1)) (r_hat (fst run1)) \<rparr>
      in handle P solution1 (fst ms, snd run1))"

text \<open>Lines 214-239: the body of the loop over the null-space candidates.\<close>

definition eigen_point :: "env \<Rightarrow> nat \<Rightarrow> real \<times> sqpnp_state \<Rightarrow> real \<times> sqpnp_state" where
  "eigen_point P i ms =
     (let e = vscale (SQRT3 P) (column (U_m (snd ms)) i);
          orthogonality_sq_error = OrthogonalityError P e
      in if orthogonality_sq_error < DEFAULT_ORTHOGONALITY_SQUARED_ERROR_THRESHOLD P
         then accept_directly P e ms
         else refine_both_signs P e ms)"

text \<open>\<^verbatim>\<open>for (int i = 9 - num_eigen_points; i < 9; i++)\<close>, entered at \<open>i\<close>.\<close>

function eigen_loop :: "env \<Rightarrow> int \<Rightarrow> real \<times> sqpnp_state \<Rightarrow> real \<times> sqpnp_state" where
  "eigen_loop P i ms =
     (if i < 9 then eigen_loop P (i + 1) (eigen_point P (nat i) ms) else ms)"
  by pat_completeness auto
termination
  by (relation "measure (\<lambda>(P, i, ms). nat (9 - i))") auto

declare eigen_loop.simps [simp del]

text \<open>Lines 245-258: the body of the loop of line 243 at \<open>index\<close>.\<close>

definition expansion_point :: "env \<Rightarrow> nat \<Rightarrow> real \<times> sqpnp_state \<Rightarrow> real \<times> sqpnp_state" where
  "expansion_point P index ms =
     (let e = column (U_m (snd ms)) index;
          r0 = NearestRotationMatrix (snd ms) e;
          run0 = run_sqp P r0 (snd ms);
          solution0 = (fst run0) \<lparr> sol_t := mat39_vec (P_m (snd run0)) (r_hat (fst run0)) \<rparr>;
          ms = handle P solution0 (fst ms, snd run0);
          r1 = NearestRotationMatrix (snd ms) (vneg e);
          run1 = run_sqp P r1 (snd ms);
          solution1 = (fst run1) \<lparr> sol_t := mat39_vec (P_m (snd run1)) (r_hat (fst run1)) \<rparr>
      in handle P solution1 (fst ms, snd run1))"

text \<open>
  Line 243: \<^verbatim>\<open>while (min_sq_error > 3 * s_[9 - num_eigen_points - c] && 9 -
  num_eigen_points - c > 0)\<close>, entered with the current \<open>c\<close>. The singular value
  is read before the index is compared with 0.
\<close>

function expansion_loop ::
  "env \<Rightarrow> int \<Rightarrow> int \<Rightarrow> real \<times> sqpnp_state \<Rightarrow> error + real \<times> sqpnp_state" where
  "expansion_loop P num_eigen_points c ms =
     (case read_s (s_m (snd ms)) (9 - num_eigen_points - c) of
        Inl e \<Rightarrow> Inl e
      | Inr v \<Rightarrow>
          if fst ms > 3 * v \<and> 9 - num_eigen_points - c > 0
          then expansion_loop P num_eigen_points (c + 1)
                 (expansion_point P (nat (9 - num_eigen_points - c)) ms)
          else Inr ms)"
  by pat_completeness auto
termination
  by (relation "measure (\<lambda>(P, nep, c, ms). nat (9 - nep - c))") auto

declare expansion_loop.simps [simp del]

text \<open>
  Lines 73-181: the resize of the weights, the accumulation, the symmetric fill,
  the translation map \<^verbatim>\<open>P_\<close>, the completion of \<^verbatim>\<open>Omega_\<close> and its decomposition.
  The result is the state with \<^verbatim>\<open>weights_\<close>, \<^verbatim>\<open>P_\<close>, \<^verbatim>\<open>U_\<close> and \<^verbatim>\<open>s_\<close> assigned.
\<close>

definition build_and_decompose ::
  "env \<Rightarrow> Vector2d list \<Rightarrow> Vector3d list \<Rightarrow> sqpnp_state \<Rightarrow> error + sqpnp_state" where
  "build_and_decompose P feature_positions world_point st =
     (let st = st \<lparr> weights_m := resize (weights_m st) (length world_point) 1 \<rparr>;
          st = st \<lparr> num_null_vectors_m := - 1 \<rparr>;
          n = length world_point
      in (case accumulate_loop (weights_m st) feature_positions world_point n 0 accum0 of
            Inl e \<Rightarrow> Inl e
          | Inr a \<Rightarrow>
             (let Omega_m = fill_symmetric (Omega a);
                  Qinv = InvertSymmetric3x3 P (Q_of a);
                  st = st \<lparr> P_m := neg_mat33_mat39 Qinv (QA a) \<rparr>;
                  Omega_m = add_QAt_P Omega_m (QA a) (P_m st);
                  svd = JacobiSVD P Omega_m;
                  st = st \<lparr> U_m := fst svd \<rparr>;
                  st = st \<lparr> s_m := snd svd \<rparr>
              in Inr st)))"

text \<open>
  Lines 196-261: the choice of the projection, the loop over the null-space
  candidates and the loop of line 243, for the value of \<open>num_null_vectors\<close> after
  line 187. The result is the final \<open>min_sq_error\<close> and state. The locals
  \<^verbatim>\<open>point_mean\<close>, \<^verbatim>\<open>solutions\<close> and \<^verbatim>\<open>num_solutions\<close> are assigned and never read;
  they are left out.
\<close>

definition search :: "env \<Rightarrow> int \<Rightarrow> sqpnp_state \<Rightarrow> error + real \<times> sqpnp_state" where
  "search P num_null_vectors st =
     (let st = st \<lparr> NearestRotationMatrix :=
                (if nearest_rotation_method P = FOAM
                 then NearestRotationMatrix_FOAM P
                 else NearestRotationMatrix_SVD P) \<rparr>;
          min_sq_error = DBL_MAX;
          num_eigen_points = (if num_null_vectors > 0 then num_null_vectors else 1);
          ms = eigen_loop P (9 - num_eigen_points) (min_sq_error, st)
      in expansion_loop P num_eigen_points 1 ms)"

text \<open>
  How a call of \<^verbatim>\<open>SQPnP\<close> ends: with a \<^verbatim>\<open>return\<close> statement and its value, or by
  reaching the closing brace of line 263, where the function has no \<^verbatim>\<open>return\<close>
  statement.
\<close>

datatype outcome = Returned bool | NoReturnStatement

text \<open>
  \<^verbatim>\<open>SQPnP\<close>. Line 187 increments the count that the scan of line 185 left and
  returns \<^verbatim>\<open>false\<close> when the result exceeds 6. Neither \<^verbatim>\<open>solution_rotation\<close> nor
  \<^verbatim>\<open>solution_translation\<close> occurs in the body.
\<close>

definition SQPnP ::
  "env \<Rightarrow> Vector2d list \<Rightarrow> Vector3d list \<Rightarrow> sqpnp_state \<Rightarrow> error + outcome \<times> sqpnp_state" where
  "SQPnP P feature_positions world_point st =
     (if length world_point \<noteq> length feature_positions \<or> length world_point < 3
         \<or> length feature_positions < 3
      then Inr (Returned False, st)
      else (case build_and_decompose P feature_positions world_point st of
              Inl e \<Rightarrow> Inl e
            | Inr st \<Rightarrow>
               (case null_space_scan (DEFAULT_RANK_TOLERANCE P) (s_m st) 0 of
                  Inl e \<Rightarrow> Inl e
                | Inr k \<Rightarrow>
                   (let num_null_vectors = k + 1
                    in if num_null_vectors > 6 then Inr (Returned False, st)
                       else (case search P num_null_vectors st of
                               Inl e \<Rightarrow> Inl e
                             | Inr ms \<Rightarrow> Inr (NoReturnStatement, snd ms))))))"

section \<open>Example values\<close>

text \<open>
  Concrete vectors, a concrete state and a family of concrete parameter records,
  on which the theorems below are instantiated. The helpers of the records are
  simple stand-ins: the projections return their argument, \<^verbatim>\<open>SolveSQPSystem\<close>
  always returns the step \<open>(3, 0, \<dots>, 0)\<close>, \<^verbatim>\<open>OrthogonalityError\<close> is constant, and
  \<^verbatim>\<open>JacobiSVD\<close> returns the identity basis with the given singular values.
\<close>

definition zero9 :: Matrix91 where
  "zero9 = (\<lambda>i. 0)"

definition vec :: "real list \<Rightarrow> Matrix91" where
  "vec xs = (\<lambda>i. if i < length xs then xs ! i else 0)"

definition identity99 :: Matrix99 where
  "identity99 = (\<lambda>i j. if i = j then 1 else 0)"

definition solution0 :: SQPSolution where
  "solution0 = \<lparr> sol_r = zero9, r_hat = zero9, sol_t = zero9, num_iterations = 0 \<rparr>"

definition state0 :: sqpnp_state where
  "state0 = \<lparr> weights_m = [], num_null_vectors_m = 0, P_m = (\<lambda>i j. 0), U_m = identity99,
      s_m = zero9, NearestRotationMatrix = (\<lambda>v. v), handled = [], sqp_seeds = [],
      solution_rotation = [], solution_translation = [] \<rparr>"

definition example_env :: "real \<Rightarrow> real \<Rightarrow> real list \<Rightarrow> env" where
  "example_env tol orth svs =
     \<lparr> DEFAULT_SQP_SQUARED_TOLERANCE = tol,
       DEFAULT_RANK_TOLERANCE = 1 / 10 ^ 7,
       DEFAULT_ORTHOGONALITY_SQUARED_ERROR_THRESHOLD = 1 / 10 ^ 8,
       SQRT3 = sqrt 3,
       sqp_det_threshold = 1001 / 1000,
       nearest_rotation_method = SVD,
       NearestRotationMatrix_FOAM = (\<lambda>v. v),
       NearestRotationMatrix_SVD = (\<lambda>v. v),
       SolveSQPSystem = (\<lambda>st r. vec [3]),
       OrthogonalityError = (\<lambda>e. orth),
       InvertSymmetric3x3 = (\<lambda>Q. Q),
       JacobiSVD = (\<lambda>M. (identity99, vec svs)),
       HandleSolution =
         (\<lambda>st solution min_sq_error. min min_sq_error (squaredNorm (r_hat solution))),
       indeterminate = solution0 \<rparr>"

text \<open>
  Values for the search of lines 196-261. Two rotations, row-major: the identity
  and the half turn about the third axis.
\<close>

definition rot_identity :: Matrix91 where
  "rot_identity = vec [1, 0, 0, 0, 1, 0, 0, 0, 1]"

definition rot_half_turn :: Matrix91 where
  "rot_half_turn = vec [- 1, 0, 0, 0, - 1, 0, 0, 0, 1]"

text \<open>
  A stand-in projection onto these two rotations, chosen by the sign of the sum
  of the entries of its argument. Scaling the argument by a positive factor does
  not change its value.
\<close>

definition sign_projection :: "Matrix91 \<Rightarrow> Matrix91" where
  "sign_projection v = (if 0 \<le> sum_list (map v [0..<9]) then rot_identity else rot_half_turn)"

text \<open>
  A stand-in for \<^verbatim>\<open>OrthogonalityError\<close>: the squared Frobenius norm of
  \<open>R R\<^sup>T - I\<close> for the row-major 3x3 reshaping \<open>R\<close> of the argument.
\<close>

definition frobenius_residual :: "Matrix91 \<Rightarrow> real" where
  "frobenius_residual a =
     (let n1 = a 0 * a 0 + a 1 * a 1 + a 2 * a 2;
          n2 = a 3 * a 3 + a 4 * a 4 + a 5 * a 5;
          n3 = a 6 * a 6 + a 7 * a 7 + a 8 * a 8;
          d12 = a 0 * a 3 + a 1 * a 4 + a 2 * a 5;
          d13 = a 0 * a 6 + a 1 * a 7 + a 2 * a 8;
          d23 = a 3 * a 6 + a 4 * a 7 + a 5 * a 8
      in (n1 - 1) * (n1 - 1) + (n2 - 1) * (n2 - 1) + (n3 - 1) * (n3 - 1)
         + 2 * (d12 * d12 + d13 * d13 + d23 * d23))"

text \<open>
  The matrix whose column \<open>c\<close> is the unit vector of index \<open>p ! c\<close>, and an
  orthonormal basis built from it: column 8 is the identity rotation divided by
  \<open>\<surd>3\<close>, columns 0 and 6 complete the span of the three diagonal entries,
  and the other columns are unit vectors.
\<close>

definition permutation_basis :: "nat list \<Rightarrow> Matrix99" where
  "permutation_basis p = (\<lambda>k c. if c < length p \<and> k = p ! c then 1 else 0)"

definition search_basis :: Matrix99 where
  "search_basis =
     (\<lambda>k c. if c = 0 then vec [1, 0, 0, 0, 1, 0, 0, 0, - 2] k / sqrt 6
            else if c = 6 then vec [1, 0, 0, 0, - 1, 0, 0, 0, 0] k / sqrt 2
            else if c = 8 then rot_identity k / sqrt 3
            else permutation_basis [0, 1, 2, 3, 5, 6, 0, 7] k c)"

text \<open>
  A parameter record with the orthogonality residual above, and a state with
  this basis, the singular values \<open>4, 2, 1/2, 0, \<dots>, 0\<close> and the stand-in
  projection.
\<close>

definition search_env :: env where
  "search_env = (example_env (1 / 10 ^ 10) 1 []) \<lparr> OrthogonalityError := frobenius_residual \<rparr>"

definition state1 :: sqpnp_state where
  "state1 = state0 \<lparr> U_m := search_basis, s_m := vec [4, 2, 1 / 2],
       NearestRotationMatrix := sign_projection \<rparr>"

text \<open>
  A parameter record for the input with image points \<open>(1, 0)\<close>, \<open>(0, 1)\<close>,
  \<open>(0, 0)\<close> and world points \<open>(1, 0, 1)\<close>, \<open>(0, 1, 1)\<close>, \<open>(0, 0, 1)\<close>. Every pass
  of the loop of lines 89-140 reads the last correspondence, so the matrix \<open>Q\<close>
  of lines 163-166 is \<open>diag(3, 3, 0)\<close>, which has no inverse; the stand-in for
  \<^verbatim>\<open>InvertSymmetric3x3\<close> returns its argument. The matrix that is decomposed then
  has the entries \<open>-24\<close> at \<open>(2, 2)\<close> and \<open>(5, 5)\<close> only. \<^verbatim>\<open>JacobiSVD\<close> returns the
  decomposition of a matrix of this shape: the unit vectors of index 2 and 5
  first, and the absolute values of the two entries as singular values.
\<close>

definition low_rank_env :: env where
  "low_rank_env = (example_env (1 / 10 ^ 10) 1 [])
     \<lparr> JacobiSVD := (\<lambda>M. (permutation_basis [2, 5, 0, 1, 3, 4, 6, 7, 8],
                            vec [\<bar>M 2 2\<bar>, \<bar>M 5 5\<bar>, 0, 0, 0, 0, 0, 0, 0])) \<rparr>"

text \<open>
  What the loop of lines 89-140 accumulates on this input: three times the
  term of the last correspondence.
\<close>

definition axis_accum :: accum where
  "axis_accum = foldl (\<lambda>a k. contribution ([1, 1, 1] ! k) (0, 0) (0, 0, 1) a) accum0 [0, 1, 2]"

section \<open>Reference definitions\<close>

text \<open>
  The number of consecutive singular values below the tolerance, read from
  index 7 downwards: \<open>s 7\<close>, \<open>s 6\<close>, \<dots>, \<open>s 0\<close>. Index 8 is not looked at.
\<close>

definition run_below :: "real \<Rightarrow> Matrix91 \<Rightarrow> nat" where
  "run_below tol s = length (takeWhile (\<lambda>v. v < tol) (map s (rev [0..<8])))"

text \<open>
  The null-space size as the specification words it: the count of eigenvalues
  below the tolerance, scanned starting from the smallest one (index 8), plus
  one.
\<close>

definition spec_null_space_size :: "real \<Rightarrow> Matrix91 \<Rightarrow> nat" where
  "spec_null_space_size tol s = length (takeWhile (\<lambda>v. v < tol) (map s (rev [0..<9]))) + 1"

text \<open>
  The loop of line 243 unrolled over a list of indices: each index is visited
  while the best cost so far exceeds three times its singular value, and its
  column is handed, as it is, to the statements of lines 230-238.
\<close>

fun expansion_run :: "env \<Rightarrow> nat list \<Rightarrow> real \<times> sqpnp_state \<Rightarrow> real \<times> sqpnp_state" where
  "expansion_run P [] ms = ms"
| "expansion_run P (j # js) ms =
     (if fst ms > 3 * s_m (snd ms) j
      then expansion_run P js (refine_both_signs P (column (U_m (snd ms)) j) ms)
      else ms)"

text \<open>
  Lines 230-238 written out on the pair of the running minimum and the state,
  for the vector \<open>e\<close>: \<^verbatim>\<open>RunSQP\<close> from the projection of \<open>e\<close>, the translation
  \<^verbatim>\<open>P_ * r_hat\<close>, \<^verbatim>\<open>HandleSolution\<close> on the running minimum; then the same from
  the projection of \<open>-e\<close>, on the minimum that the first call left.
\<close>

definition spec_refine_both :: "env \<Rightarrow> Matrix91 \<Rightarrow> real \<times> sqpnp_state \<Rightarrow> real \<times> sqpnp_state" where
  "spec_refine_both P e ms =
     (let m = fst ms; st = snd ms;
          r0 = NearestRotationMatrix st e;
          a = RunSQP P st r0;
          solution0 = a \<lparr> sol_t := (\<lambda>i. \<Sum>k = 0..<9. P_m st i k * r_hat a k) \<rparr>;
          st1 = st \<lparr> sqp_seeds := sqp_seeds st @ [r0] \<rparr>;
          m1 = HandleSolution P st1 solution0 m;
          st2 = st1 \<lparr> handled := handled st @ [solution0] \<rparr>;
          r1 = NearestRotationMatrix st (\<lambda>k. - e k);
          b = RunSQP P st2 r1;
          solution1 = b \<lparr> sol_t := (\<lambda>i. \<Sum>k = 0..<9. P_m st i k * r_hat b k) \<rparr>;
          st3 = st2 \<lparr> sqp_seeds := sqp_seeds st @ [r0, r1] \<rparr>;
          m2 = HandleSolution P st3 solution1 m1
      in (m2, st3 \<lparr> handled := handled st @ [solution0, solution1] \<rparr>))"


text \<open>The fields that the search of lines 196-261 does not assign.\<close>

definition untouched :: "sqpnp_state \<Rightarrow> sqpnp_state \<Rightarrow> bool" where
  "untouched st st' =
     (solution_rotation st' = solution_rotation st
      \<and> solution_translation st' = solution_translation st
      \<and> s_m st' = s_m st \<and> U_m st' = U_m st \<and> P_m st' = P_m st
      \<and> NearestRotationMatrix st' = NearestRotationMatrix st)"

section \<open>Basic facts\<close>

lemma upt_0_3: "[0..<3] = [0, 1, 2::nat]"
  by (simp add: eval_nat_numeral)

lemma upt_0_8: "[0..<8] = [0, 1, 2, 3, 4, 5, 6, 7::nat]"
  by (simp add: eval_nat_numeral)

lemma upt_0_9: "[0..<9] = [0, 1, 2, 3, 4, 5, 6, 7, 8::nat]"
  by (simp add: eval_nat_numeral)

lemma add_at_apply:
  "add_at M (i, j, v) k l = (if k = i \<and> l = j then M k l + v else M k l)"
  by (simp add: add_at_def)

lemma add_at_zero: "add_at M (i, j, 0) = M"
  by (simp add: add_at_def)

lemma length_resize: "length (resize ws n v) = n"
  by (simp add: resize_def)

lemma Determinant9x1_vneg: "Determinant9x1 (vneg v) = - Determinant9x1 v"
  by (simp add: Determinant9x1_def vneg_def)

lemma squaredNorm_vec3: "squaredNorm (vec [3]) = 9"
  by (simp add: squaredNorm_def vec_def upt_0_9)

lemma example_env_tolerance: "DEFAULT_RANK_TOLERANCE (example_env tol orth svs) = 1 / 10 ^ 7"
  by (simp add: example_env_def)

lemma sum_0_9:
  fixes f :: "nat \<Rightarrow> real"
  shows "(\<Sum>k = 0..<9. f k) = f 0 + f 1 + f 2 + f 3 + f 4 + f 5 + f 6 + f 7 + f 8"
proof -
  have "sum f {0..<9} = sum_list (map f [0..<9])"
    by (simp add: interv_sum_list_conv_sum_set_nat)
  then show ?thesis
    unfolding upt_0_9 by simp
qed

lemma vec9: "vec [a0, a1, a2, a3, a4, a5, a6, a7, a8] 0 = a0"
  "vec [a0, a1, a2, a3, a4, a5, a6, a7, a8] 1 = a1"
  "vec [a0, a1, a2, a3, a4, a5, a6, a7, a8] 2 = a2"
  "vec [a0, a1, a2, a3, a4, a5, a6, a7, a8] 3 = a3"
  "vec [a0, a1, a2, a3, a4, a5, a6, a7, a8] 4 = a4"
  "vec [a0, a1, a2, a3, a4, a5, a6, a7, a8] 5 = a5"
  "vec [a0, a1, a2, a3, a4, a5, a6, a7, a8] 6 = a6"
  "vec [a0, a1, a2, a3, a4, a5, a6, a7, a8] 7 = a7"
  "vec [a0, a1, a2, a3, a4, a5, a6, a7, a8] 8 = a8"
  by (simp_all add: vec_def)

lemma mat39_vec_sum: "mat39_vec A v = (\<lambda>i. \<Sum>k = 0..<9. A i k * v k)"
  by (simp add: mat39_vec_def interv_sum_list_conv_sum_set_nat)

lemma scaled_column: "vscale c (column U i) = (\<lambda>k. c * U k i)"
  by (simp add: vscale_def column_def)

lemma DBL_MAX_ge_3: "3 \<le> DBL_MAX"
  by (simp add: DBL_MAX_def)

section \<open>The accumulation loop\<close>

text \<open>
  With a weight for every index below \<open>n\<close>, the loop does not fail, and what it
  adds at every index is the contribution of the last image point and the last
  world point.
\<close>

lemma accumulate_loop_last:
  "n \<le> length ws \<Longrightarrow>
   accumulate_loop ws fp wp n i a =
     Inr (foldl (\<lambda>a k. contribution (ws ! k) (last fp) (last wp) a) a [i..<n])"
proof (induction ws fp wp n i a rule: accumulate_loop.induct)
  case (1 ws fp wp n i a)
  show ?case
  proof (cases "i < n")
    case True
    then have b: "accumulate_body ws fp wp i a = Inr (contribution (ws ! i) (last fp) (last wp) a)"
      using "1.prems" by (simp add: accumulate_body_def)
    from True have u: "[i..<n] = i # [Suc i..<n]"
      by (simp add: upt_conv_Cons)
    show ?thesis
      using True b "1.IH"[OF True b "1.prems"] u
      by (simp add: accumulate_loop.simps[of ws fp wp n i a])
  next
    case False
    then show ?thesis
      by (simp add: accumulate_loop.simps[of ws fp wp n i a])
  qed
qed

lemma sum_X_contribution: "sum_X (contribution w m M a) = sum_X a + fst M"
  by (simp add: contribution_def Let_def split: prod.splits)

lemma sum_wx_contribution: "sum_wx (contribution w m M a) = sum_wx a + fst m * w"
  by (simp add: contribution_def Let_def split: prod.splits)

lemma Omega_00_contribution:
  "Omega (contribution w m M a) 0 0 = Omega a 0 0 + w * (fst M * fst M)"
  by (simp add: contribution_def Let_def add_entries_def add_at_apply split: prod.splits)

lemma Omega_22_contribution:
  "Omega (contribution w m M a) 2 2 = Omega a 2 2 + w * (snd (snd M) * snd (snd M))"
  by (simp add: contribution_def Let_def add_entries_def add_at_apply split: prod.splits)

text \<open>
  C1. The claim: the accumulated form is the sum over all \<open>i\<close> of the term of
  correspondence \<open>i\<close>, world point \<open>i\<close> paired with image point \<open>i\<close> and weight \<open>i\<close>.
  The loop reads both points through \<^verbatim>\<open>rbegin()\<close>, so every pass adds the term of
  the last correspondence. On three correspondences with unit weights, image
  points \<open>(1,2)\<close>, \<open>(3,4)\<close>, \<open>(5,6)\<close> and world points \<open>(1,0,0)\<close>, \<open>(0,1,0)\<close>,
  \<open>(0,0,1)\<close>, the loop leaves \<open>sum_X = 0\<close>, \<open>sum_wx = 15\<close>, \<open>Omega(0,0) = 0\<close> and
  \<open>Omega(2,2) = 3\<close>, where the sum over the correspondences is \<open>1\<close>, \<open>9\<close>, \<open>1\<close>
  and \<open>1\<close>.
\<close>

theorem accumulate_loop_ignores_index:
  "(case accumulate_loop [1, 1, 1] [(1, 2), (3, 4), (5, 6)] [(1, 0, 0), (0, 1, 0), (0, 0, 1)] 3 0 accum0
    of Inl e \<Rightarrow> None
     | Inr a \<Rightarrow> Some (sum_X a, sum_wx a, Omega a 0 0, Omega a 2 2)) = Some (0, 15, 0, 3)
   \<and> (let s = spec_accumulate [1, 1, 1] [(1, 2), (3, 4), (5, 6)] [(1, 0, 0), (0, 1, 0), (0, 0, 1)]
      in (sum_X s, sum_wx s, Omega s 0 0, Omega s 2 2)) = (1, 9, 1, 1)"
  by (simp add: accumulate_loop_last spec_accumulate_def accum0_def upt_0_3
      sum_X_contribution sum_wx_contribution Omega_00_contribution Omega_22_contribution)

section \<open>RunSQP\<close>

text \<open>
  Whatever the steps are, the value of \<open>step\<close> that the loop leaves is bounded
  by the constant of line 28, rounded up, plus one.
\<close>

lemma RunSQP_loop_step_bound:
  "snd (RunSQP_loop P st r d step) \<le> max step \<lceil>DEFAULT_SQP_SQUARED_TOLERANCE P\<rceil> + 1"
proof (induction P st r d step rule: RunSQP_loop.induct)
  case (1 P st r d step)
  show ?case
  proof (cases "d > DEFAULT_SQP_SQUARED_TOLERANCE P \<and> real_of_int step < DEFAULT_SQP_SQUARED_TOLERANCE P")
    case True
    then have lt: "step < \<lceil>DEFAULT_SQP_SQUARED_TOLERANCE P\<rceil>"
      by (simp add: less_ceiling_iff)
    from True have "snd (RunSQP_loop P st r d step)
        = snd (RunSQP_loop P st (vadd r (SolveSQPSystem P st r))
                 (squaredNorm (SolveSQPSystem P st r)) (step + 1))"
      by (simp add: RunSQP_loop.simps[of P st r d step] Let_def)
    also have "\<dots> \<le> max (step + 1) \<lceil>DEFAULT_SQP_SQUARED_TOLERANCE P\<rceil> + 1"
      using "1.IH"[of "SolveSQPSystem P st r"] True by simp
    also have "\<dots> \<le> max step \<lceil>DEFAULT_SQP_SQUARED_TOLERANCE P\<rceil> + 1"
      using lt by simp
    finally show ?thesis .
  next
    case False
    then show ?thesis
      by (auto simp: RunSQP_loop.simps[of P st r d step])
  qed
qed

text \<open>
  The loop at two values of the constant, with a step of squared norm 9 at every
  pass.
\<close>

lemma RunSQP_loop_example_small:
  "RunSQP_loop (example_env (1 / 10 ^ 10) orth svs) st r DBL_MAX 0 = (vadd r (vec [3]), 2)"
  apply (subst RunSQP_loop.simps)
  apply (subst RunSQP_loop.simps)
  apply (simp add: example_env_def squaredNorm_vec3 DBL_MAX_def Let_def)
  done

lemma RunSQP_loop_example_large:
  "RunSQP_loop (example_env (5 / 2) orth svs) st r DBL_MAX 0 =
     (vadd (vadd (vadd r (vec [3])) (vec [3])) (vec [3]), 4)"
  apply (subst RunSQP_loop.simps)
  apply (subst RunSQP_loop.simps)
  apply (subst RunSQP_loop.simps)
  apply (subst RunSQP_loop.simps)
  apply (simp add: example_env_def squaredNorm_vec3 DBL_MAX_def Let_def)
  done

text \<open>
  C5. The claim: the loop stops when the squared norm of the step falls below
  the tolerance or when an iteration cap, a bound independent of the tolerance
  value, is reached, and the number of iterations consumed is recorded. Line 28
  bounds \<open>step\<close> by \<^verbatim>\<open>DEFAULT_SQP_SQUARED_TOLERANCE\<close> itself. With steps of squared
  norm 9 from \<open>r0 = 0\<close>: for the constant \<open>1e-10\<close> the body runs once (the first
  component of \<open>r\<close> is 3) and \<open>num_iterations\<close> is 2; for the constant \<open>5/2\<close> it
  runs three times (the first component is 9) and \<open>num_iterations\<close> is 4. The
  loop does stop, and a solution is returned, for every value of the constant:
  \<open>RunSQP_loop\<close> is a total function, and \<open>RunSQP_loop_step_bound\<close> bounds its
  count by the constant.
\<close>

theorem RunSQP_cap_is_the_tolerance:
  "num_iterations (RunSQP (example_env (1 / 10 ^ 10) 1 []) state0 zero9) = 2
   \<and> sol_r (RunSQP (example_env (1 / 10 ^ 10) 1 []) state0 zero9) 0 = 3
   \<and> num_iterations (RunSQP (example_env (5 / 2) 1 []) state0 zero9) = 4
   \<and> sol_r (RunSQP (example_env (5 / 2) 1 []) state0 zero9) 0 = 9"
  unfolding RunSQP_def RunSQP_loop_example_small RunSQP_loop_example_large
  by (simp add: Let_def Determinant9x1_def vadd_def vec_def zero9_def vneg_def)

text \<open>
  C7. For every starting vector, the 9-vector \<open>r\<close> of the solution that
  \<^verbatim>\<open>RunSQP\<close> returns has a non-negative determinant: it is the result of the loop,
  negated as a whole when the determinant of that result is negative. When the
  determinant of the returned \<open>r\<close> exceeds \<^verbatim>\<open>sqp_det_threshold\<close>, \<open>r_hat\<close> is the
  nearest-rotation projection of \<open>r\<close>; otherwise \<open>r_hat\<close> is \<open>r\<close> itself.
\<close>

theorem RunSQP_determinant_and_projection:
  "0 \<le> Determinant9x1 (sol_r (RunSQP P st r0))
   \<and> sol_r (RunSQP P st r0) =
       (if Determinant9x1 (fst (RunSQP_loop P st r0 DBL_MAX 0)) < 0
        then vneg (fst (RunSQP_loop P st r0 DBL_MAX 0))
        else fst (RunSQP_loop P st r0 DBL_MAX 0))
   \<and> r_hat (RunSQP P st r0) =
       (if Determinant9x1 (sol_r (RunSQP P st r0)) > sqp_det_threshold P
        then NearestRotationMatrix st (sol_r (RunSQP P st r0))
        else sol_r (RunSQP P st r0))"
proof -
  obtain r step where l: "RunSQP_loop P st r0 DBL_MAX 0 = (r, step)"
    by (cases "RunSQP_loop P st r0 DBL_MAX 0")
  show ?thesis
  proof (cases "Determinant9x1 r < 0")
    case True
    then show ?thesis
      by (simp add: RunSQP_def l Let_def Determinant9x1_vneg)
  next
    case False
    then show ?thesis
      by (simp add: RunSQP_def l Let_def)
  qed
qed

text \<open>
  A seed whose loop result has determinant \<open>-2\<close>: the vector is negated, its
  determinant 2 exceeds the threshold, and \<open>r_hat\<close> is the projection.
\<close>

theorem RunSQP_determinant_and_projection_witness:
  "Determinant9x1 (sol_r (RunSQP (example_env (1 / 10 ^ 10) 1 []) state0
       (vec [- 5, 0, 0, 0, 1, 0, 0, 0, 1]))) = 2
   \<and> sol_r (RunSQP (example_env (1 / 10 ^ 10) 1 []) state0 (vec [- 5, 0, 0, 0, 1, 0, 0, 0, 1]))
       = vneg (vadd (vec [- 5, 0, 0, 0, 1, 0, 0, 0, 1]) (vec [3]))
   \<and> r_hat (RunSQP (example_env (1 / 10 ^ 10) 1 []) state0 (vec [- 5, 0, 0, 0, 1, 0, 0, 0, 1]))
       = NearestRotationMatrix state0
           (sol_r (RunSQP (example_env (1 / 10 ^ 10) 1 []) state0 (vec [- 5, 0, 0, 0, 1, 0, 0, 0, 1])))"
proof -
  let ?E = "example_env (1 / 10 ^ 10) 1 []"
  let ?seed = "vec [- 5, 0, 0, 0, 1, 0, 0, 0, 1]"
  let ?res = "vadd ?seed (vec [3])"
  have l: "fst (RunSQP_loop ?E state0 ?seed DBL_MAX 0) = ?res"
    unfolding RunSQP_loop_example_small by simp
  have d: "Determinant9x1 ?res = - 2"
    by (simp add: Determinant9x1_def vadd_def vec_def)
  have t: "sqp_det_threshold ?E = 1001 / 1000"
    by (simp add: example_env_def)
  note th = RunSQP_determinant_and_projection[of ?E state0 ?seed]
  from th have s: "sol_r (RunSQP ?E state0 ?seed) = vneg ?res"
    unfolding l d by simp
  have d2: "Determinant9x1 (sol_r (RunSQP ?E state0 ?seed)) = 2"
    unfolding s Determinant9x1_vneg d by simp
  from th have h: "r_hat (RunSQP ?E state0 ?seed)
      = NearestRotationMatrix state0 (sol_r (RunSQP ?E state0 ?seed))"
    unfolding d2 t by simp
  show ?thesis
    by (intro conjI d2 s h)
qed

section \<open>The null-space scan\<close>

text \<open>
  The scan entered at count \<open>8 - j\<close> reads \<open>s (j - 1)\<close>, \<dots>, \<open>s 0\<close> and then index
  \<open>-1\<close>.
\<close>

lemma null_space_scan_from:
  "j \<le> 8 \<Longrightarrow> k = 8 - int j \<Longrightarrow>
   null_space_scan tol s k =
     (if length (takeWhile (\<lambda>v. v < tol) (map s (rev [0..<j]))) < j
      then Inr (k + int (length (takeWhile (\<lambda>v. v < tol) (map s (rev [0..<j])))))
      else Inl (IndexOutOfRange (- 1)))"
proof (induction j arbitrary: k)
  case 0
  then have "k = 8" by simp
  then show ?case
    by (simp add: null_space_scan.simps[of tol s 8] read_s_def)
next
  case (Suc j)
  then have j: "j \<le> 8" "j < 8" and k: "k + 1 = 8 - int j" by simp_all
  have rd: "read_s s (7 - k) = Inr (s j)"
    using j k by (simp add: read_s_def)
  note step = null_space_scan.simps[of tol s k]
  show ?case
  proof (cases "s j < tol")
    case True
    have "null_space_scan tol s k = null_space_scan tol s (k + 1)"
      using True rd by (simp add: step)
    also have "\<dots> = (if length (takeWhile (\<lambda>v. v < tol) (map s (rev [0..<j]))) < j
      then Inr (k + 1 + int (length (takeWhile (\<lambda>v. v < tol) (map s (rev [0..<j])))))
      else Inl (IndexOutOfRange (- 1)))"
      by (rule Suc.IH[OF j(1) k])
    finally show ?thesis
      using True by simp
  next
    case False
    then show ?thesis
      using rd by (simp add: step)
  qed
qed

lemma null_space_scan_run:
  "null_space_scan tol s 0 =
     (if run_below tol s < 8 then Inr (int (run_below tol s)) else Inl (IndexOutOfRange (- 1)))"
  using null_space_scan_from[of 8 0 tol s] by (simp add: run_below_def)

lemma null_space_scan_range:
  "null_space_scan tol s 0 = Inr k \<Longrightarrow> 0 \<le> k \<and> k \<le> 7"
  by (auto simp: null_space_scan_run split: if_splits)

lemma run_below_all:
  assumes "0 < tol"
  shows "run_below tol (\<lambda>i. 0) = 8"
  using assms by (simp add: run_below_def upt_0_8)

section \<open>The search loops\<close>

lemma untouched_refl: "untouched st st"
  by (simp add: untouched_def)

lemma untouched_trans: "untouched a b \<Longrightarrow> untouched b c \<Longrightarrow> untouched a c"
  by (simp add: untouched_def)

lemma handle_untouched: "untouched (snd ms) (snd (handle P sol ms))"
  by (simp add: handle_def untouched_def split: prod.splits)

lemma run_sqp_untouched: "untouched st (snd (run_sqp P r0 st))"
  by (simp add: run_sqp_def untouched_def)

lemma accept_directly_untouched: "untouched (snd ms) (snd (accept_directly P e ms))"
  by (simp add: accept_directly_def Let_def handle_untouched)

lemma refine_both_signs_untouched: "untouched (snd ms) (snd (refine_both_signs P e ms))"
  by (simp add: refine_both_signs_def Let_def handle_def run_sqp_def untouched_def split: prod.splits)

lemma expansion_point_refine:
  "expansion_point P index ms = refine_both_signs P (column (U_m (snd ms)) index) ms"
  by (simp add: expansion_point_def refine_both_signs_def Let_def)

lemma eigen_point_untouched: "untouched (snd ms) (snd (eigen_point P i ms))"
  by (simp add: eigen_point_def Let_def accept_directly_untouched refine_both_signs_untouched)

lemma eigen_loop_untouched: "untouched (snd ms) (snd (eigen_loop P i ms))"
proof (induction P i ms rule: eigen_loop.induct)
  case (1 P i ms)
  show ?case
  proof (cases "i < 9")
    case True
    have "untouched (snd ms) (snd (eigen_point P (nat i) ms))"
      by (rule eigen_point_untouched)
    moreover have "untouched (snd (eigen_point P (nat i) ms))
        (snd (eigen_loop P (i + 1) (eigen_point P (nat i) ms)))"
      by (rule "1.IH"[OF True])
    ultimately show ?thesis
      using True by (simp add: eigen_loop.simps[of P i ms] untouched_trans)
  next
    case False
    then show ?thesis
      by (simp add: eigen_loop.simps[of P i ms] untouched_refl)
  qed
qed

lemma eigen_loop_fold:
  "0 \<le> i \<Longrightarrow> eigen_loop P i ms = foldl (\<lambda>ms j. eigen_point P j ms) ms [nat i..<9]"
proof (induction P i ms rule: eigen_loop.induct)
  case (1 P i ms)
  show ?case
  proof (cases "i < 9")
    case True
    have lt: "nat i < 9" using True by simp
    have sc: "nat (i + 1) = Suc (nat i)" using "1.prems" by arith
    have u: "[nat i..<9] = nat i # [nat (i + 1)..<9]"
      unfolding sc using lt by (rule upt_conv_Cons)
    from "1.prems" have "0 \<le> i + 1" by simp
    from "1.IH"[OF True this] True u show ?thesis
      by (simp add: eigen_loop.simps[of P i ms])
  next
    case False
    then show ?thesis
      by (simp add: eigen_loop.simps[of P i ms])
  qed
qed

lemma expansion_run_untouched: "untouched (snd ms) (snd (expansion_run P js ms))"
proof (induction js arbitrary: ms)
  case Nil
  show ?case by (simp add: untouched_refl)
next
  case (Cons j js)
  show ?case
    using Cons[of "refine_both_signs P (column (U_m (snd ms)) j) ms"]
      refine_both_signs_untouched[of ms P "column (U_m (snd ms)) j"]
    by (auto simp: untouched_refl intro: untouched_trans)
qed

lemma expansion_loop_step:
  "0 \<le> 9 - num_eigen_points - c \<Longrightarrow> 9 - num_eigen_points - c \<le> 8 \<Longrightarrow>
   expansion_loop P num_eigen_points c ms =
     (if fst ms > 3 * s_m (snd ms) (nat (9 - num_eigen_points - c)) \<and> 9 - num_eigen_points - c > 0
      then expansion_loop P num_eigen_points (c + 1)
             (refine_both_signs P (column (U_m (snd ms)) (nat (9 - num_eigen_points - c))) ms)
      else Inr ms)"
  by (simp add: expansion_loop.simps[of P num_eigen_points c ms] read_s_def expansion_point_refine)

lemma expansion_loop_from:
  "n = nat (9 - num_eigen_points - c) \<Longrightarrow> 0 \<le> 9 - num_eigen_points - c \<Longrightarrow>
   9 - num_eigen_points - c \<le> 8 \<Longrightarrow>
   expansion_loop P num_eigen_points c ms = Inr (expansion_run P (rev [1..<Suc n]) ms)"
proof (induction n arbitrary: c ms)
  case 0
  then have "\<not> 9 - num_eigen_points - c > 0" by simp
  then show ?case
    using expansion_loop_step[OF "0.prems"(2,3), of P ms] by simp
next
  case (Suc n)
  then have pos: "9 - num_eigen_points - c > 0" by simp
  have r: "rev [1..<Suc (Suc n)] = Suc n # rev [1..<Suc n]" by simp
  have ih: "expansion_loop P num_eigen_points (c + 1) ms' =
      Inr (expansion_run P (rev [1..<Suc n]) ms')" for ms'
    by (rule Suc.IH) (use Suc.prems in simp_all)
  show ?case
    unfolding r
    using expansion_loop_step[OF Suc.prems(2,3), of P ms] pos ih Suc.prems(1)[symmetric]
    by simp
qed

lemma expansion_loop_run:
  assumes "1 \<le> num_eigen_points" "num_eigen_points \<le> 8"
  shows "expansion_loop P num_eigen_points 1 ms =
     Inr (expansion_run P (rev [1..<nat (9 - num_eigen_points)]) ms)"
proof -
  have n: "Suc (nat (9 - num_eigen_points - 1)) = nat (9 - num_eigen_points)"
    using assms by simp
  have "expansion_loop P num_eigen_points 1 ms =
     Inr (expansion_run P (rev [1..<Suc (nat (9 - num_eigen_points - 1))]) ms)"
    by (rule expansion_loop_from) (use assms in simp_all)
  then show ?thesis
    unfolding n .
qed

lemma search_spec:
  assumes "1 \<le> num_null_vectors" "num_null_vectors \<le> 8"
  shows "search P num_null_vectors st =
     Inr (expansion_run P (rev [1..<nat (9 - num_null_vectors)])
       (eigen_loop P (9 - num_null_vectors)
          (DBL_MAX, st \<lparr> NearestRotationMatrix :=
                (if nearest_rotation_method P = FOAM
                 then NearestRotationMatrix_FOAM P
                 else NearestRotationMatrix_SVD P) \<rparr>)))"
proof -
  have "0 < num_null_vectors" using assms by simp
  then show ?thesis
    unfolding search_def Let_def
    by (simp only: if_True expansion_loop_run[OF assms])
qed

lemma search_outputs:
  assumes "1 \<le> num_null_vectors" "num_null_vectors \<le> 8"
  shows "\<exists>ms. search P num_null_vectors st = Inr ms
       \<and> solution_rotation (snd ms) = solution_rotation st
       \<and> solution_translation (snd ms) = solution_translation st"
proof -
  let ?st = "st \<lparr> NearestRotationMatrix :=
                (if nearest_rotation_method P = FOAM
                 then NearestRotationMatrix_FOAM P
                 else NearestRotationMatrix_SVD P) \<rparr>"
  let ?e = "eigen_loop P (9 - num_null_vectors) (DBL_MAX, ?st)"
  let ?x = "expansion_run P (rev [1..<nat (9 - num_null_vectors)]) ?e"
  have "untouched ?st (snd ?e)"
    using eigen_loop_untouched[of "(DBL_MAX, ?st)" P "9 - num_null_vectors"] by simp
  moreover have "untouched (snd ?e) (snd ?x)"
    by (rule expansion_run_untouched)
  ultimately have "untouched ?st (snd ?x)"
    by (rule untouched_trans)
  then have "solution_rotation (snd ?x) = solution_rotation st
       \<and> solution_translation (snd ?x) = solution_translation st"
    by (simp add: untouched_def)
  then show ?thesis
    using search_spec[OF assms, of P st] by simp
qed

subsection \<open>The two loops written out\<close>

lemma refine_both_signs_spec: "refine_both_signs P e ms = spec_refine_both P e ms"
  by (simp add: refine_both_signs_def spec_refine_both_def Let_def handle_def run_sqp_def
      mat39_vec_sum vneg_def split: prod.splits)




text \<open>
  C8. The loop of lines 211-240 runs the body of lines 214-239 on the columns
  \<open>9 - num_eigen_points\<close>, \<dots>, \<open>8\<close> of \<^verbatim>\<open>U_\<close> in turn, each from the running minimum
  and the state that the column before it left. The body at column \<open>i\<close> takes
  \<open>e = SQRT3 * U_(k, i)\<close>. When \<^verbatim>\<open>OrthogonalityError(e)\<close> is below the threshold, the
  candidate has \<open>r_hat = Determinant9x1(e) * e\<close>, \<open>t = P_ * r_hat\<close> and
  \<open>num_iterations = 0\<close>, it is passed to \<^verbatim>\<open>HandleSolution\<close> with the running minimum,
  and \<^verbatim>\<open>RunSQP\<close> is not called. Otherwise \<^verbatim>\<open>RunSQP\<close> runs exactly twice, from the
  projection of \<open>e\<close> and from the projection of \<open>-e\<close>; each result gets
  \<open>t = P_ * r_hat\<close> and is passed to \<^verbatim>\<open>HandleSolution\<close>, the second one with the
  minimum that the first one left.
\<close>

theorem eigen_loop_candidates:
  assumes "1 \<le> num_eigen_points" "num_eigen_points \<le> 9"
  shows "eigen_loop P (9 - num_eigen_points) ms0 =
           foldl (\<lambda>ms i. eigen_point P i ms) ms0 [nat (9 - num_eigen_points)..<9]
       \<and> eigen_point P i (m, st) =
          (let e = (\<lambda>k. SQRT3 P * U_m st k i)
           in if OrthogonalityError P e < DEFAULT_ORTHOGONALITY_SQUARED_ERROR_THRESHOLD P
              then
                (let solution = (indeterminate P)
                       \<lparr> r_hat := (\<lambda>k. Determinant9x1 e * e k),
                         sol_t := (\<lambda>j. \<Sum>k = 0..<9. P_m st j k * (Determinant9x1 e * e k)),
                         num_iterations := 0 \<rparr>
                 in (HandleSolution P st solution m, st \<lparr> handled := handled st @ [solution] \<rparr>))
              else
                (let r0 = NearestRotationMatrix st e;
                     a = RunSQP P st r0;
                     solution0 = a \<lparr> sol_t := (\<lambda>j. \<Sum>k = 0..<9. P_m st j k * r_hat a k) \<rparr>;
                     st1 = st \<lparr> sqp_seeds := sqp_seeds st @ [r0] \<rparr>;
                     m1 = HandleSolution P st1 solution0 m;
                     st2 = st1 \<lparr> handled := handled st @ [solution0] \<rparr>;
                     r1 = NearestRotationMatrix st (\<lambda>k. - e k);
                     b = RunSQP P st2 r1;
                     solution1 = b \<lparr> sol_t := (\<lambda>j. \<Sum>k = 0..<9. P_m st j k * r_hat b k) \<rparr>;
                     st3 = st2 \<lparr> sqp_seeds := sqp_seeds st @ [r0, r1] \<rparr>;
                     m2 = HandleSolution P st3 solution1 m1
                 in (m2, st3 \<lparr> handled := handled st @ [solution0, solution1] \<rparr>)))"
proof -
  have "0 \<le> 9 - num_eigen_points" using assms by simp
  then have loop: "eigen_loop P (9 - num_eigen_points) ms0 =
           foldl (\<lambda>ms i. eigen_point P i ms) ms0 [nat (9 - num_eigen_points)..<9]"
    by (rule eigen_loop_fold)
  have body: "eigen_point P i (m, st) =
      (let e = (\<lambda>k. SQRT3 P * U_m st k i)
       in if OrthogonalityError P e < DEFAULT_ORTHOGONALITY_SQUARED_ERROR_THRESHOLD P
          then accept_directly P e (m, st) else spec_refine_both P e (m, st))"
    by (simp add: eigen_point_def Let_def scaled_column refine_both_signs_spec)
  have acc: "accept_directly P e (m, st) =
      (let solution = (indeterminate P)
             \<lparr> r_hat := (\<lambda>k. Determinant9x1 e * e k),
               sol_t := (\<lambda>j. \<Sum>k = 0..<9. P_m st j k * (Determinant9x1 e * e k)),
               num_iterations := 0 \<rparr>
       in (HandleSolution P st solution m, st \<lparr> handled := handled st @ [solution] \<rparr>))" for e
    by (simp add: accept_directly_def Let_def handle_def mat39_vec_sum vscale_def)
  show ?thesis
    unfolding body acc spec_refine_both_def using loop by (simp add: Let_def)
qed

subsection \<open>The two loops on the example state\<close>

lemma search_env_fields:
  "SQRT3 search_env = sqrt 3"
  "DEFAULT_ORTHOGONALITY_SQUARED_ERROR_THRESHOLD search_env = 1 / 10 ^ 8"
  "OrthogonalityError search_env = frobenius_residual"
  "sqp_det_threshold search_env = 1001 / 1000"
  "indeterminate search_env = solution0"
  "HandleSolution search_env st sol m = min m (squaredNorm (r_hat sol))"
  by (simp_all add: search_env_def example_env_def)

lemma RunSQP_loop_search_env:
  "RunSQP_loop search_env st r DBL_MAX 0 = (vadd r (vec [3]), 2)"
  apply (subst RunSQP_loop.simps)
  apply (subst RunSQP_loop.simps)
  apply (simp add: search_env_def example_env_def squaredNorm_vec3 DBL_MAX_def Let_def)
  done

lemma sign_projection_values:
  "sign_projection (vadd rot_identity (vec [3])) = rot_identity"
  "sign_projection (vneg (vadd rot_half_turn (vec [3]))) = rot_half_turn"
  by (simp_all add: sign_projection_def upt_0_9 vadd_def vneg_def rot_identity_def
      rot_half_turn_def vec_def)

lemma RunSQP_search_identity:
  assumes "NearestRotationMatrix st = sign_projection"
  shows "r_hat (RunSQP search_env st rot_identity) = rot_identity"
    and "num_iterations (RunSQP search_env st rot_identity) = 2"
proof -
  have d: "Determinant9x1 (vadd rot_identity (vec [3])) = 4"
    by (simp add: Determinant9x1_def vadd_def rot_identity_def vec_def)
  show "r_hat (RunSQP search_env st rot_identity) = rot_identity"
    unfolding RunSQP_def RunSQP_loop_search_env
    by (simp add: Let_def d search_env_fields assms sign_projection_values)
  show "num_iterations (RunSQP search_env st rot_identity) = 2"
    unfolding RunSQP_def RunSQP_loop_search_env
    by (simp add: Let_def d search_env_fields)
qed

lemma RunSQP_search_half_turn:
  assumes "NearestRotationMatrix st = sign_projection"
  shows "r_hat (RunSQP search_env st rot_half_turn) = rot_half_turn"
    and "num_iterations (RunSQP search_env st rot_half_turn) = 2"
proof -
  have d: "Determinant9x1 (vadd rot_half_turn (vec [3])) = - 2"
    by (simp add: Determinant9x1_def vadd_def rot_half_turn_def vec_def)
  show "r_hat (RunSQP search_env st rot_half_turn) = rot_half_turn"
    unfolding RunSQP_def RunSQP_loop_search_env
    by (simp add: Let_def d search_env_fields assms sign_projection_values Determinant9x1_vneg)
  show "num_iterations (RunSQP search_env st rot_half_turn) = 2"
    unfolding RunSQP_def RunSQP_loop_search_env
    by (simp add: Let_def d search_env_fields)
qed

lemma squaredNorm_rotations: "squaredNorm rot_identity = 3" "squaredNorm rot_half_turn = 3"
  by (simp_all add: squaredNorm_def upt_0_9 rot_identity_def rot_half_turn_def vec_def)

lemma spec_refine_both_search_env:
  assumes "NearestRotationMatrix (snd ms) = sign_projection"
      and "sign_projection e = rot_identity" "sign_projection (\<lambda>k. - e k) = rot_half_turn"
      and "3 \<le> fst ms"
  shows "fst (spec_refine_both search_env e ms) = 3"
    and "sqp_seeds (snd (spec_refine_both search_env e ms))
           = sqp_seeds (snd ms) @ [rot_identity, rot_half_turn]"
    and "map r_hat (handled (snd (spec_refine_both search_env e ms)))
           = map r_hat (handled (snd ms)) @ [rot_identity, rot_half_turn]"
    and "map num_iterations (handled (snd (spec_refine_both search_env e ms)))
           = map num_iterations (handled (snd ms)) @ [2, 2]"
  using assms
  by (simp_all add: spec_refine_both_def Let_def search_env_fields RunSQP_search_identity
      RunSQP_search_half_turn squaredNorm_rotations)


lemma state1_fields:
  "NearestRotationMatrix state1 = sign_projection" "s_m state1 = vec [4, 2, 1 / 2]"
  "sqp_seeds state1 = []" "handled state1 = []"
  "U_m state1 k 8 = rot_identity k / sqrt 3"
  "j = 1 \<or> j = 2 \<or> j = 7 \<Longrightarrow> U_m state1 k j = identity99 k j"
  by (auto simp: state1_def state0_def search_basis_def permutation_basis_def identity99_def)

lemma unit_column_projection:
  assumes "j < 9"
  shows "sign_projection (\<lambda>k. sqrt 3 * identity99 k j) = rot_identity"
    and "sign_projection (\<lambda>k. - (sqrt 3 * identity99 k j)) = rot_half_turn"
  using assms
  by (auto simp: sign_projection_def upt_0_9 identity99_def)

lemma search_basis_columns:
  "search_basis k 0 = vec [1, 0, 0, 0, 1, 0, 0, 0, - 2] k / sqrt 6"
  "search_basis k 1 = identity99 k 1"
  "search_basis k 2 = identity99 k 2"
  "search_basis k 3 = identity99 k 3"
  "search_basis k 4 = identity99 k 5"
  "search_basis k 5 = identity99 k 6"
  "search_basis k 6 = vec [1, 0, 0, 0, - 1, 0, 0, 0, 0] k / sqrt 2"
  "search_basis k 7 = identity99 k 7"
  "search_basis k 8 = vec [1, 0, 0, 0, 1, 0, 0, 0, 1] k / sqrt 3"
  by (simp_all add: search_basis_def permutation_basis_def identity99_def rot_identity_def)

lemma search_basis_orthonormal:
  assumes "i < 9" "j < 9"
  shows "(\<Sum>k = 0..<9. search_basis k i * search_basis k j) = (if i = j then 1 else 0)"
proof -
  have i: "i = 0 \<or> i = 1 \<or> i = 2 \<or> i = 3 \<or> i = 4 \<or> i = 5 \<or> i = 6 \<or> i = 7 \<or> i = 8"
    using assms(1) by arith
  have j: "j = 0 \<or> j = 1 \<or> j = 2 \<or> j = 3 \<or> j = 4 \<or> j = 5 \<or> j = 6 \<or> j = 7 \<or> j = 8"
    using assms(2) by arith
  show ?thesis
    unfolding sum_0_9
    using i j
    by (elim disjE; simp only: search_basis_columns vec9 identity99_def; simp)
qed

lemma frobenius_residual_rot_identity: "frobenius_residual rot_identity = 0"
  by (simp add: frobenius_residual_def Let_def rot_identity_def vec_def)

lemma frobenius_residual_unit7:
  "frobenius_residual (\<lambda>k. sqrt 3 * identity99 k 7) = 6"
  by (simp add: frobenius_residual_def Let_def identity99_def)

lemma scaled_column8: "(\<lambda>k. sqrt 3 * (rot_identity k / sqrt 3)) = rot_identity"
  by (rule ext) simp

lemma Determinant9x1_rot_identity: "Determinant9x1 rot_identity = 1"
  by (simp add: Determinant9x1_def rot_identity_def vec_def)

text \<open>
  The loop over the last two columns of the example basis. Column 7 is a unit
  vector: its residual is 6, and \<^verbatim>\<open>RunSQP\<close> runs from the two projections. Column 8
  is the identity rotation divided by \<open>\<surd>3\<close>: its residual is 0, and it is
  accepted with \<open>num_iterations = 0\<close> and no call of \<^verbatim>\<open>RunSQP\<close>.
\<close>

theorem eigen_loop_candidates_witness:
  "eigen_loop search_env (9 - 2) (DBL_MAX, state1)
     = eigen_point search_env 8 (eigen_point search_env 7 (DBL_MAX, state1))
   \<and> fst (eigen_point search_env 7 (DBL_MAX, state1)) = 3
   \<and> sqp_seeds (snd (eigen_point search_env 7 (DBL_MAX, state1))) = [rot_identity, rot_half_turn]
   \<and> map r_hat (handled (snd (eigen_point search_env 7 (DBL_MAX, state1))))
       = [rot_identity, rot_half_turn]
   \<and> map num_iterations (handled (snd (eigen_point search_env 7 (DBL_MAX, state1)))) = [2, 2]
   \<and> fst (eigen_point search_env 8 (DBL_MAX, state1)) = 3
   \<and> sqp_seeds (snd (eigen_point search_env 8 (DBL_MAX, state1))) = []
   \<and> map r_hat (handled (snd (eigen_point search_env 8 (DBL_MAX, state1)))) = [rot_identity]
   \<and> map num_iterations (handled (snd (eigen_point search_env 8 (DBL_MAX, state1)))) = [0]"
proof -
  let ?ms = "(DBL_MAX, state1)"
  let ?e7 = "\<lambda>k. sqrt 3 * identity99 k 7"
  have n: "(1::int) \<le> 2" "(2::int) \<le> 9" by simp_all
  have l: "[nat (9 - 2)..<9] = [7, 8]"
    by (simp add: upt_rec)
  note th7 = eigen_loop_candidates[OF n, of search_env ?ms 7 DBL_MAX state1]
  note th8 = eigen_loop_candidates[OF n, of search_env ?ms 8 DBL_MAX state1]
  from th7 have loop: "eigen_loop search_env (9 - 2) ?ms
      = eigen_point search_env 8 (eigen_point search_env 7 ?ms)"
    unfolding l by simp
  from th7 have p7: "eigen_point search_env 7 ?ms = spec_refine_both search_env ?e7 ?ms"
    unfolding spec_refine_both_def
    by (simp add: Let_def search_env_fields state1_fields frobenius_residual_unit7)
  have r7: "fst (spec_refine_both search_env ?e7 ?ms) = 3"
    "sqp_seeds (snd (spec_refine_both search_env ?e7 ?ms)) = [rot_identity, rot_half_turn]"
    "map r_hat (handled (snd (spec_refine_both search_env ?e7 ?ms))) = [rot_identity, rot_half_turn]"
    "map num_iterations (handled (snd (spec_refine_both search_env ?e7 ?ms))) = [2, 2]"
    using spec_refine_both_search_env[of ?ms ?e7]
    by (simp_all add: state1_fields unit_column_projection DBL_MAX_ge_3)
  from th8 have p8: "eigen_point search_env 8 ?ms =
      (min DBL_MAX 3, state1 \<lparr> handled := [solution0 \<lparr> r_hat := rot_identity,
          sol_t := (\<lambda>j. \<Sum>k = 0..<9. P_m state1 j k * rot_identity k), num_iterations := 0 \<rparr>] \<rparr>)"
    by (simp add: Let_def search_env_fields state1_fields scaled_column8
        frobenius_residual_rot_identity Determinant9x1_rot_identity squaredNorm_rotations)
  have r8: "fst (eigen_point search_env 8 ?ms) = 3"
    "sqp_seeds (snd (eigen_point search_env 8 ?ms)) = []"
    "map r_hat (handled (snd (eigen_point search_env 8 ?ms))) = [rot_identity]"
    "map num_iterations (handled (snd (eigen_point search_env 8 ?ms))) = [0]"
    unfolding p8 by (simp_all add: state1_fields DBL_MAX_ge_3)
  show ?thesis
    unfolding p7 by (intro conjI loop[unfolded p7] r7 r8[unfolded p7])
qed



section \<open>SQPnP\<close>

lemma build_and_decompose_Inr:
  "\<exists>a. build_and_decompose P fp wp st =
     Inr (st \<lparr> weights_m := resize (weights_m st) (length wp) 1,
               num_null_vectors_m := - 1,
               P_m := neg_mat33_mat39 (InvertSymmetric3x3 P (Q_of a)) (QA a),
               U_m := fst (JacobiSVD P (add_QAt_P (fill_symmetric (Omega a)) (QA a)
                        (neg_mat33_mat39 (InvertSymmetric3x3 P (Q_of a)) (QA a)))),
               s_m := snd (JacobiSVD P (add_QAt_P (fill_symmetric (Omega a)) (QA a)
                        (neg_mat33_mat39 (InvertSymmetric3x3 P (Q_of a)) (QA a)))) \<rparr>)
     \<and> accumulate_loop (resize (weights_m st) (length wp) 1) fp wp (length wp) 0 accum0 = Inr a"
  by (simp add: build_and_decompose_def Let_def accumulate_loop_last length_resize)

lemma build_and_decompose_succeeds: "\<exists>st1. build_and_decompose P fp wp st = Inr st1"
  using build_and_decompose_Inr[of P fp wp st] by blast

lemma build_and_decompose_frame:
  assumes "build_and_decompose P fp wp st = Inr st1"
  shows "solution_rotation st1 = solution_rotation st
       \<and> solution_translation st1 = solution_translation st
       \<and> handled st1 = handled st \<and> sqp_seeds st1 = sqp_seeds st"
  using build_and_decompose_Inr[of P fp wp st] assms by auto

lemma build_and_decompose_svd:
  assumes "build_and_decompose P fp wp st = Inr st1"
  shows "\<exists>M. U_m st1 = fst (JacobiSVD P M) \<and> s_m st1 = snd (JacobiSVD P M)"
  using build_and_decompose_Inr[of P fp wp st] assms by auto

lemma example_env_scan:
  assumes "build_and_decompose (example_env tol orth svs) fp wp st = Inr st1"
  shows "s_m st1 = vec svs"
  using build_and_decompose_svd[OF assms] by (auto simp: example_env_def)

lemma SQPnP_good_lengths:
  assumes "length wp = length fp" "3 \<le> length wp"
      and "build_and_decompose P fp wp st = Inr st1"
  shows "SQPnP P fp wp st =
     (case null_space_scan (DEFAULT_RANK_TOLERANCE P) (s_m st1) 0 of
        Inl e \<Rightarrow> Inl e
      | Inr k \<Rightarrow>
          if k + 1 > 6 then Inr (Returned False, st1)
          else (case search P (k + 1) st1 of
                  Inl e \<Rightarrow> Inl e
                | Inr ms \<Rightarrow> Inr (NoReturnStatement, snd ms)))"
  using assms by (simp add: SQPnP_def Let_def split: sum.split)

lemma SQPnP_outputs:
  assumes "SQPnP P fp wp st = Inr (out, st')"
  shows "solution_rotation st' = solution_rotation st
       \<and> solution_translation st' = solution_translation st
       \<and> out \<noteq> Returned True"
proof (cases "length wp \<noteq> length fp \<or> length wp < 3 \<or> length fp < 3")
  case True
  then show ?thesis
    using assms by (auto simp: SQPnP_def)
next
  case False
  then have len: "length wp = length fp" "3 \<le> length wp" by auto
  obtain st1 where b: "build_and_decompose P fp wp st = Inr st1"
    using build_and_decompose_succeeds by blast
  note fr = build_and_decompose_frame[OF b]
  note eq = SQPnP_good_lengths[OF len b]
  show ?thesis
  proof (cases "null_space_scan (DEFAULT_RANK_TOLERANCE P) (s_m st1) 0")
    case (Inl e)
    then show ?thesis using assms eq by simp
  next
    case (Inr k)
    note rg = null_space_scan_range[OF Inr]
    show ?thesis
    proof (cases "k + 1 > 6")
      case True
      then show ?thesis using assms eq Inr fr by auto
    next
      case False
      then have "1 \<le> k + 1" "k + 1 \<le> 8" using rg by simp_all
      from search_outputs[OF this, of P st1] obtain ms where
        "search P (k + 1) st1 = Inr ms"
        "solution_rotation (snd ms) = solution_rotation st1"
        "solution_translation (snd ms) = solution_translation st1"
        by blast
      then show ?thesis using assms eq Inr fr False by auto
    qed
  qed
qed

text \<open>
  C3. When the two input sequences differ in length, or either has fewer than
  3 elements, \<^verbatim>\<open>SQPnP\<close> returns \<^verbatim>\<open>false\<close> and the whole state, the two output
  vectors included, is as it was before the call.
\<close>

theorem SQPnP_rejects_bad_lengths:
  "length world_point \<noteq> length feature_positions \<or> length world_point < 3
     \<or> length feature_positions < 3 \<Longrightarrow>
   SQPnP P feature_positions world_point st = Inr (Returned False, st)"
  by (simp add: SQPnP_def)

text \<open>Five image points against four world points.\<close>

theorem SQPnP_rejects_bad_lengths_witness:
  "length [(0, 0, 0), (1, 0, 0), (0, 1, 0), (0, 0, 1::real)]
     \<noteq> length [(0, 0), (1, 0), (0, 1), (1, 1), (2, 1::real)]
   \<and> SQPnP (example_env (1 / 10 ^ 10) 1 []) [(0, 0), (1, 0), (0, 1), (1, 1), (2, 1)]
       [(0, 0, 0), (1, 0, 0), (0, 1, 0), (0, 0, 1)] state0 = Inr (Returned False, state0)"
  using SQPnP_rejects_bad_lengths[of "[(0, 0, 0), (1, 0, 0), (0, 1, 0), (0, 0, 1)]"
      "[(0, 0), (1, 0), (0, 1), (1, 1), (2, 1)]" "example_env (1 / 10 ^ 10) 1 []" state0]
  by simp

text \<open>
  When the singular values of index 2 to 7 are below the tolerance, the call
  ends at line 188 or the scan of line 185 leaves the array.
\<close>

lemma run_below_low_rank:
  assumes "\<forall>k\<in>{2..7}. s k < tol"
  shows "6 \<le> run_below tol s"
proof -
  have "s 7 < tol" "s 6 < tol" "s 5 < tol" "s 4 < tol" "s 3 < tol" "s 2 < tol"
    using assms by simp_all
  then show ?thesis
    by (simp add: run_below_def upt_0_8)
qed

lemma SQPnP_low_rank_fails:
  assumes "length wp = length fp" "3 \<le> length wp"
      and "build_and_decompose P fp wp st = Inr st1"
      and "\<forall>k\<in>{2..7}. s_m st1 k < DEFAULT_RANK_TOLERANCE P"
  shows "SQPnP P fp wp st = Inr (Returned False, st1)
       \<or> SQPnP P fp wp st = Inl (IndexOutOfRange (- 1))"
  using SQPnP_good_lengths[OF assms(1,2,3)] run_below_low_rank[OF assms(4)]
  by (simp add: null_space_scan_run)

subsection \<open>The decomposition at a concrete input\<close>

text \<open>
  Image points \<open>(1, 0)\<close>, \<open>(0, 1)\<close>, \<open>(0, 0)\<close> and world points \<open>(1, 0, 1)\<close>,
  \<open>(0, 1, 1)\<close>, \<open>(0, 0, 1)\<close>. Whatever \<^verbatim>\<open>InvertSymmetric3x3\<close> returns, the matrix that
  is decomposed has entries in the rows and columns 2 and 5 only.
\<close>

lemma contribution_axis:
  "Omega (contribution w (0, 0) (0, 0, 1) a) = add_at (Omega a) (2, 2, w)"
  "QA (contribution w (0, 0) (0, 0, 1) a) = add_at (add_at (QA a) (0, 2, w)) (1, 5, w)"
  "sum_w (contribution w (0, 0) (0, 0, 1) a) = sum_w a + w"
  "sum_wx (contribution w (0, 0) (0, 0, 1) a) = sum_wx a"
  "sum_wy (contribution w (0, 0) (0, 0, 1) a) = sum_wy a"
  "sum_wx2_plus_wy2 (contribution w (0, 0) (0, 0, 1) a) = sum_wx2_plus_wy2 a"
  by (simp_all add: contribution_def Let_def add_entries_def add_at_zero)

lemma copy_entry_same: "M k l = M i j \<Longrightarrow> copy_entry M ((i, j), (k, l)) = M"
  by (simp add: copy_entry_def)

lemma copy_entry_55: "copy_entry M ((5, 5), (2, 2)) = M(5 := (M 5)(5 := M 2 2))"
  by (simp add: copy_entry_def)

lemma axis_accum_fields:
  "Omega axis_accum = (\<lambda>i j. if i = 2 \<and> j = 2 then 3 else 0)"
  "QA axis_accum = (\<lambda>i j. if (i = 0 \<and> j = 2) \<or> (i = 1 \<and> j = 5) then 3 else 0)"
  "sum_w axis_accum = 3" "sum_wx axis_accum = 0" "sum_wy axis_accum = 0"
  "sum_wx2_plus_wy2 axis_accum = 0"
  by (auto simp: axis_accum_def contribution_axis accum0_def add_at_apply fun_eq_iff)

lemma fill_symmetric_axis:
  "fill_symmetric (\<lambda>i j. if i = 2 \<and> j = 2 then 3 else 0)
     = (\<lambda>i j. if (i = 2 \<and> j = 2) \<or> (i = 5 \<and> j = 5) then 3 else 0)"
proof -
  have "fill_symmetric (\<lambda>i j. if i = 2 \<and> j = 2 then 3 else 0)
      = (\<lambda>i j. if i = (2::nat) \<and> j = (2::nat) then 3 else (0::real))
          (5 := ((\<lambda>j. if (5::nat) = 2 \<and> j = (2::nat) then 3 else (0::real)))(5 := 3))"
    unfolding fill_symmetric_def fill_copies_def
    by (simp add: copy_entry_same copy_entry_55)
  also have "\<dots> = (\<lambda>i j. if (i = 2 \<and> j = 2) \<or> (i = 5 \<and> j = 5) then 3 else 0)"
    by (auto simp: fun_eq_iff)
  finally show ?thesis .
qed

lemma axis_decomposed:
  "add_QAt_P (fill_symmetric (Omega axis_accum)) (QA axis_accum)
     (neg_mat33_mat39 q (QA axis_accum))
   = (\<lambda>i j. if i = 2 \<and> j = 2 then 3 - 9 * q 0 0
            else if i = 2 \<and> j = 5 then - (9 * q 0 1)
            else if i = 5 \<and> j = 2 then - (9 * q 1 0)
            else if i = 5 \<and> j = 5 then 3 - 9 * q 1 1
            else 0)"
  unfolding axis_accum_fields fill_symmetric_axis
  by (auto simp: fun_eq_iff add_QAt_P_def neg_mat33_mat39_def upt_0_3)

lemma axis_accumulate:
  "accumulate_loop [1, 1, 1] [(1, 0), (0, 1), (0, 0)] [(1, 0, 1), (0, 1, 1), (0, 0, 1)] 3 0 accum0
     = Inr axis_accum"
  by (simp add: accumulate_loop_last upt_0_3 axis_accum_def)

lemma axis_accumulate_Suc:
  "accumulate_loop [1, 1, 1] [(1, 0), (0, 1), (0, 0)] [(1, 0, 1), (0, 1, 1), (0, 0, 1)]
     (Suc (Suc (Suc 0))) 0 accum0 = Inr axis_accum"
  using axis_accumulate by (simp add: numeral_3_eq_3)

lemma axis_build:
  assumes "weights_m st = []"
      and "build_and_decompose P [(1, 0), (0, 1), (0, 0)] [(1, 0, 1), (0, 1, 1), (0, 0, 1)] st = Inr st1"
  shows "(U_m st1, s_m st1) =
     JacobiSVD P
       (let q = InvertSymmetric3x3 P (Q_of axis_accum)
        in (\<lambda>i j. if i = 2 \<and> j = 2 then 3 - 9 * q 0 0
                 else if i = 2 \<and> j = 5 then - (9 * q 0 1)
                 else if i = 5 \<and> j = 2 then - (9 * q 1 0)
                 else if i = 5 \<and> j = 5 then 3 - 9 * q 1 1
                 else 0))"
proof -
  have "build_and_decompose P [(1, 0), (0, 1), (0, 0)] [(1, 0, 1), (0, 1, 1), (0, 0, 1)] st =
     Inr (st \<lparr> weights_m := [1, 1, 1],
               num_null_vectors_m := - 1,
               P_m := neg_mat33_mat39 (InvertSymmetric3x3 P (Q_of axis_accum)) (QA axis_accum),
               U_m := fst (JacobiSVD P (add_QAt_P (fill_symmetric (Omega axis_accum)) (QA axis_accum)
                        (neg_mat33_mat39 (InvertSymmetric3x3 P (Q_of axis_accum)) (QA axis_accum)))),
               s_m := snd (JacobiSVD P (add_QAt_P (fill_symmetric (Omega axis_accum)) (QA axis_accum)
                        (neg_mat33_mat39 (InvertSymmetric3x3 P (Q_of axis_accum)) (QA axis_accum)))) \<rparr>)"
    by (simp add: build_and_decompose_def Let_def resize_def assms(1) axis_accumulate_Suc)
  with assms(2) have "(U_m st1, s_m st1) =
     JacobiSVD P (add_QAt_P (fill_symmetric (Omega axis_accum)) (QA axis_accum)
        (neg_mat33_mat39 (InvertSymmetric3x3 P (Q_of axis_accum)) (QA axis_accum)))"
    by auto
  then show ?thesis
    unfolding axis_decomposed Let_def .
qed

lemma low_rank_env_fields:
  "DEFAULT_RANK_TOLERANCE low_rank_env = 1 / 10 ^ 7"
  "InvertSymmetric3x3 low_rank_env = (\<lambda>Q. Q)"
  "JacobiSVD low_rank_env = (\<lambda>M. (permutation_basis [2, 5, 0, 1, 3, 4, 6, 7, 8],
                            vec [\<bar>M 2 2\<bar>, \<bar>M 5 5\<bar>, 0, 0, 0, 0, 0, 0, 0]))"
  by (simp_all add: low_rank_env_def example_env_def)

lemma axis_singular_values:
  assumes "build_and_decompose low_rank_env [(1, 0), (0, 1), (0, 0)]
             [(1, 0, 1), (0, 1, 1), (0, 0, 1)] state0 = Inr st1"
  shows "s_m st1 = vec [24, 24, 0, 0, 0, 0, 0, 0, 0]"
proof -
  have w: "weights_m state0 = []" by (simp add: state0_def)
  from axis_build[OF w assms] show ?thesis
    by (simp add: low_rank_env_fields Let_def Q_of_def axis_accum_fields)
qed

text \<open>
  The basis and the singular values that the example decomposition returns
  are a singular value decomposition of the matrix with \<open>-24\<close> at \<open>(2, 2)\<close> and
  \<open>(5, 5)\<close>: the basis is orthonormal, and with the right factor that negates
  the first two columns the product is the matrix.
\<close>

lemma low_rank_basis_columns:
  "permutation_basis [2, 5, 0, 1, 3, 4, 6, 7, 8] k 0 = identity99 k 2"
  "permutation_basis [2, 5, 0, 1, 3, 4, 6, 7, 8] k 1 = identity99 k 5"
  "permutation_basis [2, 5, 0, 1, 3, 4, 6, 7, 8] k 2 = identity99 k 0"
  "permutation_basis [2, 5, 0, 1, 3, 4, 6, 7, 8] k 3 = identity99 k 1"
  "permutation_basis [2, 5, 0, 1, 3, 4, 6, 7, 8] k 4 = identity99 k 3"
  "permutation_basis [2, 5, 0, 1, 3, 4, 6, 7, 8] k 5 = identity99 k 4"
  "permutation_basis [2, 5, 0, 1, 3, 4, 6, 7, 8] k 6 = identity99 k 6"
  "permutation_basis [2, 5, 0, 1, 3, 4, 6, 7, 8] k 7 = identity99 k 7"
  "permutation_basis [2, 5, 0, 1, 3, 4, 6, 7, 8] k 8 = identity99 k 8"
  by (simp_all add: permutation_basis_def identity99_def)

lemma low_rank_basis_orthonormal:
  assumes "i < 9" "j < 9"
  shows "(\<Sum>k = 0..<9. permutation_basis [2, 5, 0, 1, 3, 4, 6, 7, 8] k i
            * permutation_basis [2, 5, 0, 1, 3, 4, 6, 7, 8] k j) = (if i = j then 1 else 0)"
proof -
  have i: "i = 0 \<or> i = 1 \<or> i = 2 \<or> i = 3 \<or> i = 4 \<or> i = 5 \<or> i = 6 \<or> i = 7 \<or> i = 8"
    using assms(1) by arith
  have j: "j = 0 \<or> j = 1 \<or> j = 2 \<or> j = 3 \<or> j = 4 \<or> j = 5 \<or> j = 6 \<or> j = 7 \<or> j = 8"
    using assms(2) by arith
  show ?thesis
    unfolding sum_0_9
    using i j
    by (elim disjE; simp only: low_rank_basis_columns identity99_def; simp)
qed

lemma low_rank_decomposition:
  "(\<Sum>c = 0..<9. permutation_basis [2, 5, 0, 1, 3, 4, 6, 7, 8] i c
        * vec [24, 24, 0, 0, 0, 0, 0, 0, 0] c
        * (vec [- 1, - 1, 1, 1, 1, 1, 1, 1, 1] c * permutation_basis [2, 5, 0, 1, 3, 4, 6, 7, 8] j c))
   = (if (i = 2 \<and> j = 2) \<or> (i = 5 \<and> j = 5) then - 24 else 0)"
  unfolding sum_0_9
  apply (simp only: low_rank_basis_columns vec9 mult_zero_left mult_zero_right add_0_right)
  apply (cases "i = 2"; cases "i = 5"; cases "j = 2"; cases "j = 5"; simp only: identity99_def if_True if_False; simp)
  done

lemma spec_null_space_size_run_below:
  "s 8 < tol \<Longrightarrow> spec_null_space_size tol s = run_below tol s + 2"
  by (simp add: spec_null_space_size_def run_below_def upt_0_9 upt_0_8)

lemma axis_run_below: "run_below (1 / 10 ^ 7) (vec [24, 24, 0, 0, 0, 0, 0, 0, 0]) = 6"
  by (simp add: run_below_def vec_def upt_0_8)

text \<open>
  C4, as stated, fails. On the input above the singular values are
  \<open>24, 24, 0, \<dots>, 0\<close>. The scan of line 185 starts at index 7 and counts 6, and
  line 187 makes the size 7; the count of the values below the tolerance
  scanned from the smallest one, index 8, plus one, is 8.
\<close>

theorem null_space_size_counterexample:
  "map_sum id s_m (build_and_decompose low_rank_env [(1, 0), (0, 1), (0, 0)]
       [(1, 0, 1), (0, 1, 1), (0, 0, 1)] state0) = Inr (vec [24, 24, 0, 0, 0, 0, 0, 0, 0])
   \<and> map_sum id (\<lambda>n. n + 1)
         (null_space_scan (1 / 10 ^ 7) (vec [24, 24, 0, 0, 0, 0, 0, 0, 0]) 0) = Inr 7
   \<and> spec_null_space_size (1 / 10 ^ 7) (vec [24, 24, 0, 0, 0, 0, 0, 0, 0]) = 8"
proof -
  let ?s = "vec [24, 24, 0, 0, 0, 0, 0, 0, 0]"
  obtain st1 where b: "build_and_decompose low_rank_env [(1, 0), (0, 1), (0, 0)]
       [(1, 0, 1), (0, 1, 1), (0, 0, 1)] state0 = Inr st1"
    using build_and_decompose_succeeds by blast
  have a: "map_sum id s_m (build_and_decompose low_rank_env [(1, 0), (0, 1), (0, 0)]
       [(1, 0, 1), (0, 1, 1), (0, 0, 1)] state0) = Inr ?s"
    unfolding b by (simp add: axis_singular_values[OF b])
  have c: "map_sum id (\<lambda>n. n + 1) (null_space_scan (1 / 10 ^ 7) ?s 0) = Inr 7"
    unfolding null_space_scan_run axis_run_below by simp
  have lt: "?s 8 < 1 / 10 ^ 7" by (simp add: vec_def)
  have d: "spec_null_space_size (1 / 10 ^ 7) ?s = 8"
    unfolding spec_null_space_size_run_below[where s = ?s and tol = "1 / 10 ^ 7", OF lt]
      axis_run_below by simp
  show ?thesis
    by (intro conjI a c d)
qed

text \<open>
  C4, amended. When the length checks pass and the scan stops inside the array,
  the count that line 185 leaves is the number of consecutive singular values
  below the rank tolerance read from index 7 downwards (the smallest singular
  value, index 8, is not compared), line 187 adds one, and the solver returns
  \<^verbatim>\<open>false\<close> if and only if the result exceeds 6.
\<close>

theorem null_space_size_and_failure:
  assumes "length world_point = length feature_positions" "3 \<le> length world_point"
      and "build_and_decompose P feature_positions world_point st = Inr st1"
      and "run_below (DEFAULT_RANK_TOLERANCE P) (s_m st1) < 8"
  shows "null_space_scan (DEFAULT_RANK_TOLERANCE P) (s_m st1) 0
           = Inr (int (run_below (DEFAULT_RANK_TOLERANCE P) (s_m st1)))
       \<and> ((\<exists>st'. SQPnP P feature_positions world_point st = Inr (Returned False, st'))
            = (int (run_below (DEFAULT_RANK_TOLERANCE P) (s_m st1)) + 1 > 6))"
proof -
  let ?k = "int (run_below (DEFAULT_RANK_TOLERANCE P) (s_m st1))"
  have s: "null_space_scan (DEFAULT_RANK_TOLERANCE P) (s_m st1) 0 = Inr ?k"
    using assms(4) by (simp add: null_space_scan_run)
  note eq = SQPnP_good_lengths[OF assms(1,2,3)]
  show ?thesis
  proof (cases "?k + 1 > 6")
    case True
    then show ?thesis using eq s by simp
  next
    case False
    then have "1 \<le> ?k + 1" "?k + 1 \<le> 8" by simp_all
    from search_outputs[OF this, of P st1] obtain ms where "search P (?k + 1) st1 = Inr ms"
      by blast
    then show ?thesis using eq s False by simp
  qed
qed

text \<open>
  The input above: the scan counts 6, the size is 7 and the call returns
  \<^verbatim>\<open>false\<close>.
\<close>

theorem null_space_size_and_failure_witness:
  "\<exists>st1. build_and_decompose low_rank_env [(1, 0), (0, 1), (0, 0)]
            [(1, 0, 1), (0, 1, 1), (0, 0, 1)] state0 = Inr st1
     \<and> s_m st1 = vec [24, 24, 0, 0, 0, 0, 0, 0, 0]
     \<and> run_below (1 / 10 ^ 7) (s_m st1) = 6
     \<and> null_space_scan (1 / 10 ^ 7) (s_m st1) 0 = Inr 6
     \<and> (\<exists>st'. SQPnP low_rank_env [(1, 0), (0, 1), (0, 0)]
            [(1, 0, 1), (0, 1, 1), (0, 0, 1)] state0 = Inr (Returned False, st'))"
proof -
  let ?fp = "[(1, 0), (0, 1), (0, 0)] :: Vector2d list"
  let ?wp = "[(1, 0, 1), (0, 1, 1), (0, 0, 1)] :: Vector3d list"
  obtain st1 where b: "build_and_decompose low_rank_env ?fp ?wp state0 = Inr st1"
    using build_and_decompose_succeeds by blast
  note s = axis_singular_values[OF b]
  have t: "DEFAULT_RANK_TOLERANCE low_rank_env = 1 / 10 ^ 7"
    by (rule low_rank_env_fields)
  have rb: "run_below (DEFAULT_RANK_TOLERANCE low_rank_env) (s_m st1) = 6"
    unfolding t s by (rule axis_run_below)
  have len: "length ?wp = length ?fp" "3 \<le> length ?wp" by simp_all
  have lt: "run_below (DEFAULT_RANK_TOLERANCE low_rank_env) (s_m st1) < 8"
    unfolding rb by simp
  from null_space_size_and_failure[OF len b lt]
  have "null_space_scan (1 / 10 ^ 7) (s_m st1) 0 = Inr 6
      \<and> (\<exists>st'. SQPnP low_rank_env ?fp ?wp state0 = Inr (Returned False, st'))"
    unfolding rb unfolding t by simp
  with b s rb[unfolded t] show ?thesis
    by blast
qed

text \<open>World points at the origin leave \<^verbatim>\<open>Omega_\<close> and \<^verbatim>\<open>QA\<close> zero.\<close>

lemma contribution_origin:
  "Omega (contribution w m (0, 0, 0) a) = Omega a \<and> QA (contribution w m (0, 0, 0) a) = QA a"
  by (simp add: contribution_def Let_def add_entries_def add_at_zero split: prod.splits)

lemma foldl_contribution_origin:
  "Omega (foldl (\<lambda>a k. contribution (ws ! k) m (0, 0, 0) a) a ks) = Omega a
   \<and> QA (foldl (\<lambda>a k. contribution (ws ! k) m (0, 0, 0) a) a ks) = QA a"
  by (induction ks arbitrary: a) (simp_all add: contribution_origin)

lemma copy_entry_zero: "copy_entry (\<lambda>i j. 0) e = (\<lambda>i j. 0)"
  by (auto simp: copy_entry_def fun_eq_iff split: prod.splits)

lemma foldl_copy_entry_zero: "foldl copy_entry (\<lambda>i j. 0) es = (\<lambda>i j. 0)"
  by (induction es) (simp_all add: copy_entry_zero)

lemma fill_symmetric_zero: "fill_symmetric (\<lambda>i j. 0) = (\<lambda>i j. 0)"
  by (simp add: fill_symmetric_def foldl_copy_entry_zero)

lemma neg_mat33_mat39_zero: "neg_mat33_mat39 A (\<lambda>i j. 0) = (\<lambda>i j. 0)"
  by (simp add: neg_mat33_mat39_def)

lemma add_QAt_P_zero: "add_QAt_P (\<lambda>i j. 0) (\<lambda>i j. 0) B = (\<lambda>i j. 0)"
  by (simp add: add_QAt_P_def)

lemma build_and_decompose_origin:
  assumes "0 < n" "build_and_decompose P fp (replicate n (0, 0, 0)) st = Inr st1"
  shows "s_m st1 = snd (JacobiSVD P (\<lambda>i j. 0))"
proof -
  from build_and_decompose_Inr[of P fp "replicate n (0, 0, 0)" st] assms(2)
  obtain a where
    st1: "s_m st1 = snd (JacobiSVD P (add_QAt_P (fill_symmetric (Omega a)) (QA a)
             (neg_mat33_mat39 (InvertSymmetric3x3 P (Q_of a)) (QA a))))"
    and a: "accumulate_loop (resize (weights_m st) n 1) fp (replicate n (0, 0, 0)) n 0 accum0 = Inr a"
    by auto
  have l: "last (replicate n (0, 0, 0)) = ((0, 0, 0) :: Vector3d)"
    using assms(1) by simp
  have "Omega a = (\<lambda>i j. 0) \<and> QA a = (\<lambda>i j. 0)"
    using a foldl_contribution_origin[of "resize (weights_m st) n 1" "last fp" accum0 "[0..<n]"]
    by (simp add: accumulate_loop_last length_resize l accum0_def)
  then show ?thesis
    by (simp add: st1 fill_symmetric_zero neg_mat33_mat39_zero add_QAt_P_zero)
qed

text \<open>
  C10. The claim: every read of the singular values uses an index in \<open>0..8\<close>.
  The scan of line 185 has no bound on its index. When all world points are the
  origin, \<^verbatim>\<open>Omega_\<close> is the zero matrix; with singular values all 0 and a positive
  rank tolerance the scan reads \<open>s_[7]\<close>, \<dots>, \<open>s_[0]\<close> and then \<open>s_[-1]\<close>. The reads
  of the loop of line 243 do stay in range (\<open>expansion_loop_run\<close>).
\<close>

theorem null_space_scan_leaves_the_array:
  assumes "0 < DEFAULT_RANK_TOLERANCE P"
      and "snd (JacobiSVD P (\<lambda>i j. 0)) = (\<lambda>i. 0)"
      and "3 \<le> n" "length feature_positions = n"
  shows "SQPnP P feature_positions (replicate n (0, 0, 0)) st = Inl (IndexOutOfRange (- 1))"
proof -
  obtain st1 where b: "build_and_decompose P feature_positions (replicate n (0, 0, 0)) st = Inr st1"
    using build_and_decompose_succeeds by blast
  have "0 < n" using assms(3) by simp
  from build_and_decompose_origin[OF this b] have s: "s_m st1 = (\<lambda>i. 0)"
    by (simp add: assms(2))
  have "null_space_scan (DEFAULT_RANK_TOLERANCE P) (s_m st1) 0 = Inl (IndexOutOfRange (- 1))"
    by (simp add: null_space_scan_run s run_below_all[OF assms(1)])
  then show ?thesis
    using SQPnP_good_lengths[OF _ _ b] assms(3,4) by simp
qed

text \<open>Three correspondences whose world points are the origin.\<close>

theorem null_space_scan_leaves_the_array_witness:
  "SQPnP (example_env (1 / 10 ^ 10) 1 []) [(0, 0), (1, 0), (0, 1)]
     (replicate 3 (0, 0, 0)) state0 = Inl (IndexOutOfRange (- 1))"
proof -
  let ?E = "example_env (1 / 10 ^ 10) 1 []"
  have t: "0 < DEFAULT_RANK_TOLERANCE ?E"
    by (simp add: example_env_def)
  have z: "snd (JacobiSVD ?E (\<lambda>i j. 0)) = (\<lambda>i. 0)"
    by (simp add: example_env_def vec_def)
  have n: "(3::nat) \<le> 3" "length [(0, 0), (1, 0), (0, 1::real)] = 3" by simp_all
  show ?thesis
    by (rule null_space_scan_leaves_the_array[OF t z n])
qed

end
